theory Spec2Isabelle
  imports Complex_Main "HOL-Library.Log_Nat"
begin

section \<open>Values of the JavaScript runtime\<close>

text \<open>
  A request body field is a JSON value that may be absent. The handlers only test such a
  field for truthiness and copy it, so a field is a \<open>string option\<close>: \<open>None\<close> is an
  absent (or null) field, \<open>Some []\<close> the empty string; both are falsy.
\<close>

fun truthy :: "string option \<Rightarrow> bool" where
  "truthy None = False"
| "truthy (Some s) = (s \<noteq> [])"

fun text_of :: "string option \<Rightarrow> string" where
  "text_of None = []"
| "text_of (Some s) = s"

text \<open>
  A number of the runtime is a double: \<open>Some x\<close> is the finite double of value \<open>x\<close>, and
  \<open>None\<close> is a number that is not finite (NaN or an infinity), which every operation
  used here hands on. \<open>binary64\<close> rounds a rational to the nearest double, ties to the
  even significand, with the subnormal doubles at the lower end and an infinity when the
  rounded value reaches 2 to the power 1024; each arithmetic operation is the exact one
  followed by this rounding. The sign of zero is not kept.
\<close>

type_synonym number = "rat option"

definition pow2 :: "int \<Rightarrow> rat" where
  "pow2 e = (if 0 \<le> e then 2 ^ nat e else 1 / 2 ^ nat (- e))"

definition round_half_even :: "rat \<Rightarrow> int" where
  "round_half_even x =
     (let f = \<lfloor>x\<rfloor>; r = x - of_int f
      in if r < 1 / 2 then f else if 1 / 2 < r then f + 1 else if even f then f else f + 1)"

definition exponent_of :: "rat \<Rightarrow> int" where
  "exponent_of x =
     (let (p, q) = quotient_of \<bar>x\<bar>; k = bitlen p - bitlen q
      in max (- 1074) ((if pow2 k \<le> \<bar>x\<bar> then k else k - 1) - 52))"

definition binary64 :: "rat \<Rightarrow> number" where
  "binary64 x =
     (if x = 0 then Some 0
      else (let e = exponent_of x;
                m = round_half_even (\<bar>x\<bar> / pow2 e)
            in if 2 ^ 53 \<le> m \<and> e = 971 then None
               else if 971 < e then None
               else Some (sgn x * of_int m * pow2 e)))"

fun js_times :: "number \<Rightarrow> number \<Rightarrow> number" where
  "js_times (Some a) (Some b) = binary64 (a * b)"
| "js_times _ _ = None"

fun js_minus :: "number \<Rightarrow> number \<Rightarrow> number" where
  "js_minus (Some a) (Some b) = binary64 (a - b)"
| "js_minus _ _ = None"

fun js_divide :: "number \<Rightarrow> number \<Rightarrow> number" where
  "js_divide (Some a) (Some b) = (if b = 0 then None else binary64 (a / b))"
| "js_divide _ _ = None"

definition Math_ceil :: "number \<Rightarrow> number" where
  "Math_ceil x = map_option (\<lambda>a. of_int \<lceil>a\<rceil>) x"

definition Math_round :: "number \<Rightarrow> int option" where
  "Math_round x = map_option round x"

text \<open>
  \<open>new Date(s)\<close> belongs to the runtime, not to the repository: the handlers take it as a
  parameter \<open>D\<close> that gives the time value in milliseconds, \<open>None\<close> for an Invalid Date
  (whose time value is NaN). A comparison with NaN is false.
\<close>

type_synonym date_parser = "string \<Rightarrow> int option"

fun date_le :: "int option \<Rightarrow> int option \<Rightarrow> bool" where
  "date_le (Some a) (Some b) = (a \<le> b)"
| "date_le _ _ = False"

fun date_ge :: "int option \<Rightarrow> int option \<Rightarrow> bool" where
  "date_ge (Some a) (Some b) = (a \<ge> b)"
| "date_ge _ _ = False"

fun getTime :: "int option \<Rightarrow> number" where
  "getTime (Some t) = binary64 (of_int t)"
| "getTime None = None"

text \<open>
  The instance of \<open>D\<close> used in the examples: a date-only ISO string \<open>YYYY-MM-DD\<close> of a
  real calendar day denotes midnight UTC of that day; every other string is taken as
  invalid here.
\<close>

definition digit_of :: "char \<Rightarrow> int option" where
  "digit_of c = map_of (zip ''0123456789'' [0, 1, 2, 3, 4, 5, 6, 7, 8, 9]) c"

fun number_of :: "int \<Rightarrow> string \<Rightarrow> int option" where
  "number_of acc [] = Some acc"
| "number_of acc (c # cs) =
     (case digit_of c of None \<Rightarrow> None | Some d \<Rightarrow> number_of (10 * acc + d) cs)"

definition is_leap :: "int \<Rightarrow> bool" where
  "is_leap y = (y mod 4 = 0 \<and> (y mod 100 \<noteq> 0 \<or> y mod 400 = 0))"

definition days_in_month :: "int \<Rightarrow> int \<Rightarrow> int" where
  "days_in_month y m =
     (if m = 2 then (if is_leap y then 29 else 28)
      else if m = 4 \<or> m = 6 \<or> m = 9 \<or> m = 11 then 30 else 31)"

definition days_from_civil :: "int \<Rightarrow> int \<Rightarrow> int \<Rightarrow> int" where
  "days_from_civil y m d =
     (let y' = (if m \<le> 2 then y - 1 else y);
          era = y' div 400;
          yoe = y' - era * 400;
          doy = (153 * (if m > 2 then m - 3 else m + 9) + 2) div 5 + d - 1;
          doe = yoe * 365 + yoe div 4 - yoe div 100 + doy
      in era * 146097 + doe - 719468)"

definition ms_per_day :: int where
  "ms_per_day = 1000 * 60 * 60 * 24"

definition iso_date :: date_parser where
  "iso_date s =
     (if length s = 10 \<and> s ! 4 = CHR ''-'' \<and> s ! 7 = CHR ''-'' then
        (case (number_of 0 (take 4 s), number_of 0 (take 2 (drop 5 s)), number_of 0 (drop 8 s)) of
           (Some y, Some m, Some d) \<Rightarrow>
             (if 1 \<le> m \<and> m \<le> 12 \<and> 1 \<le> d \<and> d \<le> days_in_month y m
              then Some (days_from_civil y m d * ms_per_day) else None)
         | _ \<Rightarrow> None)
      else None)"

section \<open>The persistence collaborator\<close>

text \<open>
  Each table is the list of its rows, in the order the store returns them. No table has
  a uniqueness constraint. Every call is one round trip that may fail; a failed call
  returns no data and changes nothing, and the client reports the failure in the
  \<open>error\<close> of its answer, it does not throw.
\<close>

record contractor_row =
  ct_id :: string
  ct_email :: string
  ct_full_name :: string
  ct_company_name :: string
  ct_company_email :: string
  ct_phone :: string
  ct_code :: "string option"
  ct_role :: string
  ct_is_active :: bool
  ct_email_verified :: bool

record landlord_row =
  ll_id :: string
  ll_full_name :: string
  ll_email :: string
  ll_contact_number :: string

record booking_request_row =
  brq_id :: string
  brq_user_id :: string
  brq_full_name :: string
  brq_company_name :: string
  brq_email :: string
  brq_project_postcode :: "string option"
  brq_team_size :: "int option"
  brq_budget_per_person_week :: "string option"
  brq_status :: string
  brq_city :: "string option"

record booking_date_row =
  bd_id :: string
  bd_booking_request_id :: string
  bd_start_date :: string
  bd_end_date :: string
  bd_status :: string

record property_row =
  pr_id :: string
  pr_price :: rat
  pr_is_available :: bool

record booked_property_row =
  bp_id :: string
  bp_booking_id :: string
  bp_contractor_id :: "string option"
  bp_booking_request_id :: "string option"
  bp_property_id :: string
  bp_landlord_id :: "string option"
  bp_start_date :: string
  bp_end_date :: string
  bp_project_postcode :: "string option"
  bp_team_size :: "string option"
  bp_contractor_name :: "string option"
  bp_contractor_email :: "string option"
  bp_contractor_phone :: "string option"
  bp_property_name :: "string option"
  bp_property_type :: "string option"
  bp_property_address :: "string option"
  bp_landlord_name :: "string option"
  bp_landlord_contact :: "string option"
  bp_value :: "string option"
  bp_status :: string

record booking_row =
  bk_id :: string
  bk_property_id :: string
  bk_start_date :: string
  bk_end_date :: string
  bk_status :: string
  bk_updated_at :: string

record invoice_row =
  inv_id :: string
  inv_booking_id :: string
  inv_stripe_session_id :: "string option"
  inv_stripe_payment_url :: "string option"
  inv_amount :: number
  inv_status :: string
  inv_updated_at :: string

record db =
  contractor :: "contractor_row list"
  landlord :: "landlord_row list"
  booking_requests :: "booking_request_row list"
  booking_dates :: "booking_date_row list"
  properties :: "property_row list"
  booked_properties :: "booked_property_row list"
  bookings :: "booking_row list"
  invoices :: "invoice_row list"

text \<open>
  The query modifiers of the store's client: the pair is \<open>(data, error)\<close>. \<open>single\<close>
  answers with the row when exactly one row matches and with an error otherwise;
  \<open>maybeSingle\<close> differs for no row, which is no error. More than one matching row is an
  error with no data for both.
\<close>

fun single :: "bool \<Rightarrow> 'a list \<Rightarrow> 'a option \<times> bool" where
  "single True rows = (None, True)"
| "single False [r] = (Some r, False)"
| "single False rows = (None, True)"

fun maybeSingle :: "bool \<Rightarrow> 'a list \<Rightarrow> 'a option \<times> bool" where
  "maybeSingle True rows = (None, True)"
| "maybeSingle False [] = (None, False)"
| "maybeSingle False [r] = (Some r, False)"
| "maybeSingle False rows = (None, True)"

section \<open>Property assignment\<close>

text \<open>The body of \<open>POST /property-assignment\<close>, as the handler destructures it.\<close>

record assign_request =
  booking_date_id :: "string option"
  property_id :: "string option"
  start_date :: "string option"
  end_date :: "string option"
  postcode :: "string option"
  contractor_name :: "string option"
  contractor_email :: "string option"
  contractor_phone :: "string option"
  team_size :: "string option"
  property_name :: "string option"
  property_type :: "string option"
  property_address :: "string option"
  landlord_name :: "string option"
  landlord_contact :: "string option"
  value_field :: "string option"

text \<open>
  What the store does on each of the handler's eight round trips, in program order, and
  the key it gives to an inserted row.
\<close>

record assign_env =
  contractor_lookup_fails :: bool
  landlord_lookup_fails :: bool
  booking_date_lookup_fails :: bool
  existing_check_fails :: bool
  overlap_query_fails :: bool
  insert_fails :: bool
  property_update_fails :: bool
  booking_date_update_fails :: bool
  new_assignment_id :: string

datatype assign_response =
    Missing_Fields
  | Booking_Already_Exists
  | Date_Conflict string string
  | Insert_Failed
  | Created booked_property_row

fun http_status :: "assign_response \<Rightarrow> nat" where
  "http_status Missing_Fields = 400"
| "http_status Booking_Already_Exists = 409"
| "http_status (Date_Conflict s e) = 409"
| "http_status Insert_Failed = 500"
| "http_status (Created row) = 201"

fun error_code :: "assign_response \<Rightarrow> string option" where
  "error_code Booking_Already_Exists = Some ''BOOKING_ALREADY_EXISTS''"
| "error_code (Date_Conflict s e) = Some ''DATE_CONFLICT''"
| "error_code _ = None"

fun conflictingDates :: "assign_response \<Rightarrow> (string \<times> string) option" where
  "conflictingDates (Date_Conflict s e) = Some (s, e)"
| "conflictingDates _ = None"

fun error_text :: "assign_response \<Rightarrow> string" where
  "error_text Missing_Fields =
     ''Missing required fields: booking_date_id, property_id, start_date, end_date''"
| "error_text Booking_Already_Exists = ''This booking is already assigned to a property''"
| "error_text (Date_Conflict s e) =
     ''Property is unavailable for the selected dates. Already booked from '' @ s @ '' to '' @ e"
| "error_text Insert_Failed = ''Failed to create property assignment''"
| "error_text (Created row) = []"

definition contractorId :: "assign_env \<Rightarrow> assign_request \<Rightarrow> db \<Rightarrow> string option" where
  "contractorId env req s =
     (if truthy (contractor_name req) \<and> truthy (contractor_email req) then
        map_option ct_id (fst (single (contractor_lookup_fails env)
          (filter (\<lambda>c. ct_full_name c = text_of (contractor_name req) \<and>
                        ct_email c = text_of (contractor_email req)) (contractor s))))
      else None)"

definition landlordId :: "assign_env \<Rightarrow> assign_request \<Rightarrow> db \<Rightarrow> string option" where
  "landlordId env req s =
     (if truthy (landlord_name req) \<and> truthy (landlord_contact req) then
        map_option ll_id (fst (single (landlord_lookup_fails env)
          (filter (\<lambda>l. ll_full_name l = text_of (landlord_name req) \<and>
                        (if CHR ''@'' \<in> set (text_of (landlord_contact req))
                         then ll_email l = text_of (landlord_contact req)
                         else ll_contact_number l = text_of (landlord_contact req)))
             (landlord s))))
      else None)"

definition bookingRequestId :: "assign_env \<Rightarrow> string \<Rightarrow> db \<Rightarrow> string option" where
  "bookingRequestId env bdid s =
     map_option bd_booking_request_id (fst (single (booking_date_lookup_fails env)
       (filter (\<lambda>d. bd_id d = bdid) (booking_dates s))))"

definition existingBooking :: "assign_env \<Rightarrow> string \<Rightarrow> db \<Rightarrow> booked_property_row option" where
  "existingBooking env bdid s =
     fst (maybeSingle (existing_check_fails env)
       (filter (\<lambda>b. bp_booking_id b = bdid) (booked_properties s)))"

definition existingBookings :: "assign_env \<Rightarrow> string \<Rightarrow> db \<Rightarrow> booked_property_row list option" where
  "existingBookings env pid s =
     (if overlap_query_fails env then None
      else Some (filter (\<lambda>b. bp_property_id b = pid) (booked_properties s)))"

text \<open>The test of the overlap loop, on one existing row.\<close>

definition dates_overlap :: "date_parser \<Rightarrow> string \<Rightarrow> string \<Rightarrow> booked_property_row \<Rightarrow> bool" where
  "dates_overlap D sd ed booking =
     (date_le (D sd) (D (bp_end_date booking)) \<and> date_ge (D ed) (D (bp_start_date booking)))"

text \<open>The loop over the existing rows: it returns at the first row that overlaps.\<close>

fun first_conflict :: "date_parser \<Rightarrow> string \<Rightarrow> string \<Rightarrow> booked_property_row list
    \<Rightarrow> booked_property_row option" where
  "first_conflict D sd ed [] = None"
| "first_conflict D sd ed (booking # rest) =
     (if dates_overlap D sd ed booking then Some booking else first_conflict D sd ed rest)"

definition date_conflict :: "date_parser \<Rightarrow> assign_env \<Rightarrow> string \<Rightarrow> string \<Rightarrow> string \<Rightarrow> db
    \<Rightarrow> booked_property_row option" where
  "date_conflict D env pid sd ed s =
     (case existingBookings env pid s of
        None \<Rightarrow> None
      | Some rows \<Rightarrow> first_conflict D sd ed rows)"

definition bookedPropertyData :: "assign_env \<Rightarrow> assign_request \<Rightarrow> db \<Rightarrow> booked_property_row" where
  "bookedPropertyData env req s =
     \<lparr> bp_id = new_assignment_id env,
       bp_booking_id = text_of (booking_date_id req),
       bp_contractor_id = contractorId env req s,
       bp_booking_request_id = bookingRequestId env (text_of (booking_date_id req)) s,
       bp_property_id = text_of (property_id req),
       bp_landlord_id = landlordId env req s,
       bp_start_date = text_of (start_date req),
       bp_end_date = text_of (end_date req),
       bp_project_postcode = postcode req,
       bp_team_size = team_size req,
       bp_contractor_name = contractor_name req,
       bp_contractor_email = contractor_email req,
       bp_contractor_phone = contractor_phone req,
       bp_property_name = property_name req,
       bp_property_type = property_type req,
       bp_property_address = property_address req,
       bp_landlord_name = landlord_name req,
       bp_landlord_contact = landlord_contact req,
       bp_value = value_field req,
       bp_status = ''active'' \<rparr>"

definition update_property_availability :: "assign_env \<Rightarrow> string \<Rightarrow> db \<Rightarrow> db \<times> string list" where
  "update_property_availability env pid s =
     (if property_update_fails env then (s, [''Error updating property availability''])
      else (s\<lparr>properties :=
                map (\<lambda>p. if pr_id p = pid then p\<lparr>pr_is_available := False\<rparr> else p)
                  (properties s)\<rparr>, []))"

definition update_booking_date_status :: "assign_env \<Rightarrow> string \<Rightarrow> db \<Rightarrow> db \<times> string list" where
  "update_booking_date_status env bdid s =
     (if booking_date_update_fails env then (s, [''Error updating booking date status''])
      else (s\<lparr>booking_dates :=
                map (\<lambda>d. if bd_id d = bdid then d\<lparr>bd_status := ''confirmed''\<rparr> else d)
                  (booking_dates s)\<rparr>, []))"

text \<open>
  The handler: the response, the store afterwards, and what was written to the error
  log.
\<close>

definition property_assignment ::
    "date_parser \<Rightarrow> assign_env \<Rightarrow> assign_request \<Rightarrow> db \<Rightarrow> assign_response \<times> db \<times> string list" where
  "property_assignment D env req s =
     (if \<not> truthy (booking_date_id req) \<or> \<not> truthy (property_id req) \<or>
         \<not> truthy (start_date req) \<or> \<not> truthy (end_date req)
      then (Missing_Fields, s, [])
      else
        (case existingBooking env (text_of (booking_date_id req)) s of
           Some existing \<Rightarrow> (Booking_Already_Exists, s, [])
         | None \<Rightarrow>
           (case date_conflict D env (text_of (property_id req))
                   (text_of (start_date req)) (text_of (end_date req)) s of
              Some booking \<Rightarrow>
                (Date_Conflict (bp_start_date booking) (bp_end_date booking), s, [])
            | None \<Rightarrow>
                if insert_fails env
                then (Insert_Failed, s, [''Error inserting into booked_properties''])
                else
                  (let row = bookedPropertyData env req s;
                       s1 = s\<lparr>booked_properties := booked_properties s @ [row]\<rparr>;
                       (s2, log2) = update_property_availability env (text_of (property_id req)) s1;
                       (s3, log3) = update_booking_date_status env (text_of (booking_date_id req)) s2
                   in (Created row, s3, log2 @ log3)))))"

section \<open>Payment orchestration\<close>

text \<open>
  What leaves the process: a session opened at the payment processor (with the booking
  tag of its metadata and the unit amount in cents, \<open>None\<close> for NaN), a POST to the CRM
  webhook (event type and data), a line of the error log.
\<close>

datatype jvalue = JStr string | JNum rat | JNull

definition jnum :: "number \<Rightarrow> jvalue" where
  "jnum v = (case v of None \<Rightarrow> JNull | Some x \<Rightarrow> JNum x)"

datatype effect =
    Stripe_Create string "int option"
  | Ghl_Post string "(string \<times> jvalue) list"
  | Log_Error string

fun is_post :: "effect \<Rightarrow> bool" where
  "is_post (Ghl_Post t d) = True"
| "is_post _ = False"

record checkout_session =
  cs_id :: string
  cs_url :: "string option"
  cs_bookingId :: "string option"
  cs_amount_total :: "int option"
  cs_payment_status :: "string option"

record stripe_event =
  ev_type :: string
  ev_object :: checkout_session

text \<open>
  The collaborators of the two payment routes: the validator's \<open>uuid\<close> test, the
  processor's client (absent without its secret key) with its two calls, where \<open>None\<close>
  stands for a thrown exception, the store's answer on each round trip, the clock read
  at the two updates, and the CRM webhook.
\<close>

record stripe_env =
  uuid :: "string \<Rightarrow> bool"
  stripe_configured :: bool
  webhook_secret_set :: bool
  sessions_create :: "string \<Rightarrow> int option \<Rightarrow> checkout_session option"
  constructEvent :: "string \<Rightarrow> string \<Rightarrow> stripe_event option"
  booking_lookup_fails :: bool
  invoice_insert_fails :: bool
  invoice_update_fails :: bool
  booking_update_fails :: bool
  new_invoice_id :: string
  created_at :: string
  now_invoice :: string
  now_booking :: string
  ghl_webhook_url_set :: bool
  ghl_post_succeeds :: bool

definition sendWebhookEvent :: "stripe_env \<Rightarrow> string \<Rightarrow> (string \<times> jvalue) list \<Rightarrow> effect list" where
  "sendWebhookEvent env eventType payload =
     (if \<not> ghl_webhook_url_set env then []
      else if ghl_post_succeeds env then [Ghl_Post eventType payload]
      else [Ghl_Post eventType payload, Log_Error (''Failed to send '' @ eventType)])"

definition createCheckoutSession ::
    "stripe_env \<Rightarrow> string \<Rightarrow> number \<Rightarrow> checkout_session option \<times> effect list" where
  "createCheckoutSession env bookingId amount =
     (if \<not> stripe_configured env then (None, [])
      else (let unit_amount = Math_round (js_times amount (Some 100))
            in (sessions_create env bookingId unit_amount, [Stripe_Create bookingId unit_amount])))"

definition constructWebhookEvent :: "stripe_env \<Rightarrow> string \<Rightarrow> string \<Rightarrow> stripe_event option" where
  "constructWebhookEvent env body signature =
     (if \<not> stripe_configured env then None
      else if \<not> webhook_secret_set env then None
      else constructEvent env body signature)"

subsection \<open>\<open>POST /stripe/create-session\<close>\<close>

datatype session_response =
    Validation_Error
  | Booking_Not_Found
  | Invoice_Failed
  | Internal_Error
  | Session_Created string "string option" invoice_row

fun session_status :: "session_response \<Rightarrow> nat" where
  "session_status Validation_Error = 400"
| "session_status Booking_Not_Found = 404"
| "session_status Invoice_Failed = 500"
| "session_status Internal_Error = 500"
| "session_status (Session_Created sid url invoice) = 200"

text \<open>The embedded \<open>property:properties(*)\<close> of a booking: the row its key points to.\<close>

definition property_of :: "db \<Rightarrow> booking_row \<Rightarrow> property_row option" where
  "property_of s booking = find (\<lambda>p. pr_id p = bk_property_id booking) (properties s)"

definition numberOfDays :: "date_parser \<Rightarrow> booking_row \<Rightarrow> number" where
  "numberOfDays D booking =
     (let startDate_time = getTime (D (bk_start_date booking));
          endDate_time = getTime (D (bk_end_date booking))
      in Math_ceil (js_divide (js_minus endDate_time startDate_time)
                      (binary64 (of_int ms_per_day))))"

text \<open>The price is read from the store's answer, where it becomes a double.\<close>

definition totalAmount :: "date_parser \<Rightarrow> property_row \<Rightarrow> booking_row \<Rightarrow> number" where
  "totalAmount D property booking =
     js_times (binary64 (pr_price property)) (numberOfDays D booking)"

definition create_session ::
    "date_parser \<Rightarrow> stripe_env \<Rightarrow> string option \<Rightarrow> db \<Rightarrow> session_response \<times> db \<times> effect list" where
  "create_session D env booking_id s =
     (case booking_id of
        None \<Rightarrow> (Validation_Error, s, [])
      | Some bid \<Rightarrow>
        if \<not> uuid env bid then (Validation_Error, s, [])
        else
          (case fst (single (booking_lookup_fails env) (filter (\<lambda>b. bk_id b = bid) (bookings s))) of
             None \<Rightarrow> (Booking_Not_Found, s, [])
           | Some booking \<Rightarrow>
             (case property_of s booking of
                None \<Rightarrow> (Internal_Error, s, [Log_Error ''Error creating Stripe session''])
              | Some property \<Rightarrow>
                (let amount = totalAmount D property booking;
                     (created, calls) = createCheckoutSession env (bk_id booking) amount
                 in case created of
                      None \<Rightarrow> (Internal_Error, s, calls @ [Log_Error ''Error creating Stripe session''])
                    | Some session \<Rightarrow>
                        if invoice_insert_fails env
                        then (Invoice_Failed, s, calls @ [Log_Error ''Error creating invoice''])
                        else
                          (let invoice =
                                 \<lparr> inv_id = new_invoice_id env,
                                   inv_booking_id = bk_id booking,
                                   inv_stripe_session_id = Some (cs_id session),
                                   inv_stripe_payment_url = cs_url session,
                                   inv_amount = amount,
                                   inv_status = ''unpaid'',
                                   inv_updated_at = created_at env \<rparr>
                           in (Session_Created (cs_id session) (cs_url session) invoice,
                               s\<lparr>invoices := invoices s @ [invoice]\<rparr>, calls))))))"

subsection \<open>\<open>POST /stripe/webhook\<close>\<close>

datatype webhook_response =
    Missing_Signature
  | Verification_Failed
  | Missing_Booking_Id
  | Invoice_Update_Failed
  | Booking_Update_Failed
  | Received

fun webhook_status :: "webhook_response \<Rightarrow> nat" where
  "webhook_status Missing_Signature = 400"
| "webhook_status Verification_Failed = 400"
| "webhook_status Missing_Booking_Id = 400"
| "webhook_status Invoice_Update_Failed = 500"
| "webhook_status Booking_Update_Failed = 500"
| "webhook_status Received = 200"

definition mark_invoice_paid :: "stripe_env \<Rightarrow> string \<Rightarrow> db \<Rightarrow> db" where
  "mark_invoice_paid env sid s =
     s\<lparr>invoices :=
         map (\<lambda>i. if inv_stripe_session_id i = Some sid
                   then i\<lparr>inv_status := ''paid'', inv_updated_at := now_invoice env\<rparr> else i)
           (invoices s)\<rparr>"

definition mark_booking_paid :: "stripe_env \<Rightarrow> string \<Rightarrow> db \<Rightarrow> db" where
  "mark_booking_paid env bookingId s =
     s\<lparr>bookings :=
         map (\<lambda>b. if bk_id b = bookingId
                   then b\<lparr>bk_status := ''paid'', bk_updated_at := now_booking env\<rparr> else b)
           (bookings s)\<rparr>"

definition amount_paid :: "checkout_session \<Rightarrow> number" where
  "amount_paid session =
     js_divide (case cs_amount_total session of None \<Rightarrow> Some 0 | Some a \<Rightarrow> binary64 (of_int a))
       (Some 100)"

definition jstr :: "string option \<Rightarrow> jvalue" where
  "jstr v = (case v of None \<Rightarrow> JNull | Some t \<Rightarrow> JStr t)"

definition session_completed ::
    "stripe_env \<Rightarrow> checkout_session \<Rightarrow> db \<Rightarrow> webhook_response \<times> db \<times> effect list" where
  "session_completed env session s =
     (if \<not> truthy (cs_bookingId session)
      then (Missing_Booking_Id, s, [Log_Error ''Missing bookingId in session metadata''])
      else if invoice_update_fails env
      then (Invoice_Update_Failed, s, [Log_Error ''Error updating invoice''])
      else
        (let s1 = mark_invoice_paid env (cs_id session) s
         in if booking_update_fails env
            then (Booking_Update_Failed, s1, [Log_Error ''Error updating booking''])
            else (Received, mark_booking_paid env (text_of (cs_bookingId session)) s1,
                  sendWebhookEvent env ''payment_succeeded''
                    [(''booking_id'', jstr (cs_bookingId session)),
                     (''stripe_session_id'', JStr (cs_id session)),
                     (''amount_paid'', jnum (amount_paid session)),
                     (''payment_status'', jstr (cs_payment_status session))])))"

definition session_expired ::
    "stripe_env \<Rightarrow> checkout_session \<Rightarrow> db \<Rightarrow> webhook_response \<times> db \<times> effect list" where
  "session_expired env session s =
     (Received, s,
      if truthy (cs_bookingId session)
      then sendWebhookEvent env ''payment_expired''
             [(''booking_id'', jstr (cs_bookingId session)),
              (''stripe_session_id'', JStr (cs_id session))]
      else [])"

definition webhook ::
    "stripe_env \<Rightarrow> string \<Rightarrow> string option \<Rightarrow> db \<Rightarrow> webhook_response \<times> db \<times> effect list" where
  "webhook env body signature s =
     (if \<not> truthy signature then (Missing_Signature, s, [])
      else
        (case constructWebhookEvent env body (text_of signature) of
           None \<Rightarrow> (Verification_Failed, s, [Log_Error ''Stripe webhook error''])
         | Some event \<Rightarrow>
             if ev_type event = ''checkout.session.completed''
             then session_completed env (ev_object event) s
             else if ev_type event = ''checkout.session.expired''
             then session_expired env (ev_object event) s
             else (Received, s, [])))"

section \<open>Booking intake\<close>

record date_pair =
  startDate :: string
  endDate :: string

text \<open>
  The body of \<open>POST /booking-requests\<close>; a field the schema requires is \<open>None\<close> when the
  body lacks it.
\<close>

record intake_request =
  fullName :: "string option"
  companyName :: "string option"
  email :: "string option"
  phone :: "string option"
  projectPostcode :: "string option"
  password :: "string option"
  bookings_field :: "date_pair list option"
  teamSize :: "int option"
  budgetPerPerson :: "string option"
  city :: "string option"

datatype auth_result = Auth_Error string | Auth_No_User | Auth_User string

text \<open>
  The collaborators of the intake route: the validator's email test, the identity
  provider's \<open>signUp\<close>, the store's answer on each round trip and the keys it gives to
  inserted rows, and the CRM webhook (whether its address is configured, and whether the
  post for the \<open>i\<close>-th pair succeeds).
\<close>

record intake_env =
  is_email :: "string \<Rightarrow> bool"
  signUp :: "string \<Rightarrow> string \<Rightarrow> auth_result"
  codes_query_fails :: bool
  contractor_insert_fails :: bool
  request_insert_fails :: bool
  dates_insert_fails :: bool
  new_request_id :: string
  new_date_id :: "nat \<Rightarrow> string"
  ghl_url_set :: bool
  ghl_post_ok :: "nat \<Rightarrow> bool"

datatype intake_response =
    Zod_Error
  | Auth_Failed string
  | No_User
  | Contractor_Failed
  | Request_Failed
  | Dates_Failed
  | Internal_Server_Error string
  | Intake_Created contractor_row booking_request_row "booking_date_row list"

fun intake_status :: "intake_response \<Rightarrow> nat" where
  "intake_status Zod_Error = 400"
| "intake_status (Auth_Failed m) = 400"
| "intake_status No_User = 500"
| "intake_status Contractor_Failed = 500"
| "intake_status Request_Failed = 500"
| "intake_status Dates_Failed = 500"
| "intake_status (Internal_Server_Error m) = 500"
| "intake_status (Intake_Created c r ds) = 201"

definition bookingRequestSchema :: "intake_env \<Rightarrow> intake_request \<Rightarrow> bool" where
  "bookingRequestSchema env body =
     (truthy (fullName body) \<and> truthy (companyName body) \<and>
      (case email body of None \<Rightarrow> False | Some e \<Rightarrow> is_email env e) \<and>
      truthy (phone body) \<and>
      (case password body of None \<Rightarrow> False | Some p \<Rightarrow> 6 \<le> length p) \<and>
      bookings_field body \<noteq> None)"

text \<open>Step 2: the next contractor code, from the codes that match \<open>CT-(\<bsol>d+)\<close>.\<close>

definition is_digit :: "char \<Rightarrow> bool" where
  "is_digit c = (digit_of c \<noteq> None)"

fun ct_match :: "string \<Rightarrow> int" where
  "ct_match [] = 0"
| "ct_match (c # cs) =
     (if take 3 (c # cs) = ''CT-'' \<and> takeWhile is_digit (drop 2 cs) \<noteq> []
      then (case number_of 0 (takeWhile is_digit (drop 2 cs)) of None \<Rightarrow> 0 | Some n \<Rightarrow> n)
      else ct_match cs)"

fun max_list :: "int list \<Rightarrow> int" where
  "max_list [] = 0"
| "max_list [n] = n"
| "max_list (n # ns) = max n (max_list ns)"

definition nextNumber :: "intake_env \<Rightarrow> db \<Rightarrow> int" where
  "nextNumber env s =
     (if codes_query_fails env then 1
      else (let existingNumbers =
                  filter (\<lambda>num. num > 0)
                    (map (\<lambda>c. ct_match (text_of (ct_code c)))
                       (filter (\<lambda>c. ct_code c \<noteq> None) (contractor s)))
            in if existingNumbers \<noteq> [] then max_list existingNumbers + 1 else 1))"

fun decimal :: "nat \<Rightarrow> string" where
  "decimal n =
     (if n < 10 then [''0123456789'' ! n]
      else decimal (n div 10) @ [''0123456789'' ! (n mod 10)])"

definition contractorCode :: "intake_env \<Rightarrow> db \<Rightarrow> string" where
  "contractorCode env s = ''CT-'' @ decimal (nat (nextNumber env s))"

text \<open>
  Step 5: the pairs with both dates non-empty, each checked in turn; the first pair
  whose start is not before its end throws, which is \<open>Inl\<close> with the message.
\<close>

fun bookingDates :: "date_parser \<Rightarrow> string \<Rightarrow> date_pair list \<Rightarrow> string + (string \<times> string \<times> string) list" where
  "bookingDates D rid [] = Inr []"
| "bookingDates D rid (booking # rest) =
     (if date_ge (D (startDate booking)) (D (endDate booking))
      then Inl (''Invalid date range: start date '' @ startDate booking @
                '' must be before end date '' @ endDate booking)
      else (case bookingDates D rid rest of
              Inl msg \<Rightarrow> Inl msg
            | Inr rows \<Rightarrow> Inr ((rid, startDate booking, endDate booking) # rows)))"

text \<open>
  The insert of the batch: the store gives each row its key, and the status column its
  default, \<open>pending\<close>.
\<close>

fun createdDates :: "intake_env \<Rightarrow> nat \<Rightarrow> (string \<times> string \<times> string) list \<Rightarrow> booking_date_row list" where
  "createdDates env i [] = []"
| "createdDates env i ((rid, sd, ed) # rest) =
     \<lparr> bd_id = new_date_id env i, bd_booking_request_id = rid,
       bd_start_date = sd, bd_end_date = ed, bd_status = ''pending'' \<rparr>
     # createdDates env (Suc i) rest"

text \<open>Step 6: one post per pair of the request, stopping at the first post that fails.\<close>

definition ghlPayload :: "intake_request \<Rightarrow> booking_date_row list \<Rightarrow> nat \<Rightarrow> date_pair
    \<Rightarrow> (string \<times> jvalue) list" where
  "ghlPayload body datesData i booking =
     [(''fullName'', jstr (fullName body)),
      (''companyName'', jstr (companyName body)),
      (''email'', jstr (email body)),
      (''phone'', jstr (phone body)),
      (''projectPostcode'', jstr (projectPostcode body)),
      (''city'', jstr (city body)),
      (''booking_'' @ decimal (i + 1), JStr (startDate booking @ '' to '' @ endDate booking)),
      (''teamSize'', (case teamSize body of None \<Rightarrow> JNull | Some n \<Rightarrow> JNum (of_int n))),
      (''budgetPerPerson'', jstr (budgetPerPerson body)),
      (''role'', JStr ''contractor''),
      (''bookingId'',
         JStr (if i < length datesData \<and> bd_id (datesData ! i) \<noteq> []
               then bd_id (datesData ! i) else ''booking_'' @ decimal (i + 1))),
      (''bookingStartDate'', JStr (startDate booking)),
      (''bookingEndDate'', JStr (endDate booking))]"

fun ghl_loop :: "intake_env \<Rightarrow> intake_request \<Rightarrow> booking_date_row list \<Rightarrow> nat \<Rightarrow> date_pair list
    \<Rightarrow> effect list" where
  "ghl_loop env body datesData i [] = []"
| "ghl_loop env body datesData i (booking # rest) =
     Ghl_Post ''booking_request'' (ghlPayload body datesData i booking) #
     (if ghl_post_ok env i then ghl_loop env body datesData (Suc i) rest
      else [Log_Error ''Error sending to GHL''])"

definition send_to_ghl :: "intake_env \<Rightarrow> intake_request \<Rightarrow> booking_date_row list \<Rightarrow> effect list" where
  "send_to_ghl env body datesData =
     (if ghl_url_set env
      then ghl_loop env body datesData 0 (case bookings_field body of None \<Rightarrow> [] | Some bs \<Rightarrow> bs)
      else [])"

text \<open>Steps 5 and 6, after the contractor and the booking request are stored.\<close>

definition create_dates ::
    "date_parser \<Rightarrow> intake_env \<Rightarrow> intake_request \<Rightarrow> contractor_row \<Rightarrow> booking_request_row \<Rightarrow> db
     \<Rightarrow> intake_response \<times> db \<times> effect list" where
  "create_dates D env body contractorData bookingRequest s =
     (case bookingDates D (brq_id bookingRequest)
             (filter (\<lambda>b. startDate b \<noteq> [] \<and> endDate b \<noteq> [])
                (case bookings_field body of None \<Rightarrow> [] | Some bs \<Rightarrow> bs)) of
        Inl msg \<Rightarrow>
          (Internal_Server_Error (''Internal server error: '' @ msg), s,
           [Log_Error ''=== Error processing booking request ===''])
      | Inr rows \<Rightarrow>
          if rows \<noteq> [] \<and> dates_insert_fails env
          then (Dates_Failed, s, [Log_Error ''Error creating booking dates''])
          else
            (let datesData = createdDates env 0 rows
             in (Intake_Created contractorData bookingRequest datesData,
                 s\<lparr>booking_dates := booking_dates s @ datesData\<rparr>,
                 send_to_ghl env body datesData)))"

definition booking_requests_post ::
    "date_parser \<Rightarrow> intake_env \<Rightarrow> intake_request \<Rightarrow> db \<Rightarrow> intake_response \<times> db \<times> effect list" where
  "booking_requests_post D env body s =
     (if \<not> bookingRequestSchema env body then (Zod_Error, s, [Log_Error ''Validation error''])
      else
        (case signUp env (text_of (email body)) (text_of (password body)) of
           Auth_Error msg \<Rightarrow>
             (Auth_Failed (''Authentication failed: '' @ msg), s, [Log_Error ''Auth signup error''])
         | Auth_No_User \<Rightarrow> (No_User, s, [])
         | Auth_User uid \<Rightarrow>
             if contractor_insert_fails env
             then (Contractor_Failed, s, [Log_Error ''Error creating contractor profile''])
             else
               (let contractorData =
                      \<lparr> ct_id = uid,
                        ct_email = text_of (email body),
                        ct_full_name = text_of (fullName body),
                        ct_company_name = text_of (companyName body),
                        ct_company_email = text_of (email body),
                        ct_phone = text_of (phone body),
                        ct_code = Some (contractorCode env s),
                        ct_role = ''contractor'',
                        ct_is_active = True,
                        ct_email_verified = False \<rparr>;
                    s1 = s\<lparr>contractor := contractor s @ [contractorData]\<rparr>
                in if request_insert_fails env
                   then (Request_Failed, s1, [Log_Error ''Error creating booking request''])
                   else
                     (let bookingRequest =
                            \<lparr> brq_id = new_request_id env,
                              brq_user_id = uid,
                              brq_full_name = text_of (fullName body),
                              brq_company_name = text_of (companyName body),
                              brq_email = text_of (email body),
                              brq_project_postcode = projectPostcode body,
                              brq_team_size = teamSize body,
                              brq_budget_per_person_week = budgetPerPerson body,
                              brq_status = ''pending'',
                              brq_city = city body \<rparr>
                      in create_dates D env body contractorData bookingRequest
                           (s1\<lparr>booking_requests := booking_requests s1 @ [bookingRequest]\<rparr>)))))"

section \<open>Example stores and requests\<close>

definition no_faults :: assign_env where
  "no_faults =
     \<lparr> contractor_lookup_fails = False, landlord_lookup_fails = False,
       booking_date_lookup_fails = False, existing_check_fails = False,
       overlap_query_fails = False, insert_fails = False,
       property_update_fails = False, booking_date_update_fails = False,
       new_assignment_id = ''a2'' \<rparr>"

definition empty_db :: db where
  "empty_db =
     \<lparr> contractor = [], landlord = [], booking_requests = [], booking_dates = [],
       properties = [], booked_properties = [], bookings = [], invoices = [] \<rparr>"

definition jan_assignment :: booked_property_row where
  "jan_assignment =
     \<lparr> bp_id = ''a1'', bp_booking_id = ''bd1'', bp_contractor_id = None,
       bp_booking_request_id = None, bp_property_id = ''p1'', bp_landlord_id = None,
       bp_start_date = ''2024-01-10'', bp_end_date = ''2024-01-15'',
       bp_project_postcode = None, bp_team_size = None, bp_contractor_name = None,
       bp_contractor_email = None, bp_contractor_phone = None, bp_property_name = None,
       bp_property_type = None, bp_property_address = None, bp_landlord_name = None,
       bp_landlord_contact = None, bp_value = None, bp_status = ''active'' \<rparr>"

definition jan_store :: db where
  "jan_store = empty_db\<lparr>booked_properties := [jan_assignment]\<rparr>"

definition jan_request :: assign_request where
  "jan_request =
     \<lparr> booking_date_id = Some ''bd2'', property_id = Some ''p1'',
       start_date = Some ''2024-01-14'', end_date = Some ''2024-01-20'',
       postcode = None, contractor_name = None, contractor_email = None,
       contractor_phone = None, team_size = None, property_name = None,
       property_type = None, property_address = None, landlord_name = None,
       landlord_contact = None, value_field = None \<rparr>"

definition twice_assigned_store :: db where
  "twice_assigned_store =
     empty_db\<lparr>booked_properties := [jan_assignment, jan_assignment\<lparr>bp_id := ''a0''\<rparr>]\<rparr>"

definition june_request :: assign_request where
  "june_request = jan_request\<lparr>booking_date_id := Some ''bd1'', property_id := Some ''p2'',
     start_date := Some ''2024-06-01'', end_date := Some ''2024-06-02''\<rparr>"

definition failing_updates :: assign_env where
  "failing_updates = no_faults\<lparr>property_update_fails := True, booking_date_update_fails := True\<rparr>"

definition march_store :: db where
  "march_store =
     jan_store\<lparr>properties := [\<lparr>pr_id = ''p1'', pr_price = 50, pr_is_available = True\<rparr>],
       booking_dates := [\<lparr>bd_id = ''bd2'', bd_booking_request_id = ''r1'',
         bd_start_date = ''2024-03-01'', bd_end_date = ''2024-03-10'', bd_status = ''pending''\<rparr>]\<rparr>"

definition march_request :: assign_request where
  "march_request = jan_request\<lparr>start_date := Some ''2024-03-01'', end_date := Some ''2024-03-10''\<rparr>"

definition hex_uuid :: "string \<Rightarrow> bool" where
  "hex_uuid t =
     (length t = 36 \<and>
      (\<forall>i < 36. if i \<in> {8, 13, 18, 23} then t ! i = CHR ''-''
                 else t ! i \<in> set ''0123456789abcdefABCDEF''))"

definition march_session :: "string \<Rightarrow> int option \<Rightarrow> checkout_session" where
  "march_session bookingId unit_amount =
     \<lparr> cs_id = ''cs_test_1'', cs_url = Some ''https://checkout.example/cs_test_1'',
       cs_bookingId = Some bookingId, cs_amount_total = unit_amount,
       cs_payment_status = Some ''unpaid'' \<rparr>"

definition paid_event :: stripe_event where
  "paid_event =
     \<lparr> ev_type = ''checkout.session.completed'',
       ev_object = (march_session ''11111111-1111-4111-8111-111111111111'' (Some 45000))
         \<lparr>cs_payment_status := Some ''paid''\<rparr> \<rparr>"

definition stripe_ok :: stripe_env where
  "stripe_ok =
     \<lparr> uuid = hex_uuid, stripe_configured = True, webhook_secret_set = True,
       sessions_create = (\<lambda>bookingId unit_amount. Some (march_session bookingId unit_amount)),
       constructEvent = (\<lambda>body signature. if signature = ''t=1,v1=good'' then Some paid_event else None),
       booking_lookup_fails = False, invoice_insert_fails = False,
       invoice_update_fails = False, booking_update_fails = False,
       new_invoice_id = ''i1'', created_at = ''2024-02-01T09:00:00.000Z'',
       now_invoice = ''2024-02-01T10:00:00.000Z'', now_booking = ''2024-02-01T10:00:00.001Z'',
       ghl_webhook_url_set = True, ghl_post_succeeds = True \<rparr>"

definition march_booking :: booking_row where
  "march_booking =
     \<lparr> bk_id = ''11111111-1111-4111-8111-111111111111'', bk_property_id = ''p1'',
       bk_start_date = ''2024-03-01'', bk_end_date = ''2024-03-10'',
       bk_status = ''pending'', bk_updated_at = ''2024-01-31T00:00:00.000Z'' \<rparr>"

definition booking_store :: db where
  "booking_store = march_store\<lparr>bookings := [march_booking]\<rparr>"

definition second_call :: stripe_env where
  "second_call = stripe_ok\<lparr>new_invoice_id := ''i2'', created_at := ''2024-02-01T09:30:00.000Z''\<rparr>"

definition later_call :: stripe_env where
  "later_call = stripe_ok\<lparr>now_invoice := ''2024-02-01T10:05:00.000Z'',
     now_booking := ''2024-02-01T10:05:00.001Z''\<rparr>"

definition unpaid_store :: db where
  "unpaid_store =
     booking_store\<lparr>invoices :=
       [\<lparr> inv_id = ''i1'', inv_booking_id = ''11111111-1111-4111-8111-111111111111'',
          inv_stripe_session_id = Some ''cs_test_1'',
          inv_stripe_payment_url = Some ''https://checkout.example/cs_test_1'',
          inv_amount = Some 450, inv_status = ''unpaid'',
          inv_updated_at = ''2024-02-01T09:00:00.000Z'' \<rparr>]\<rparr>"

definition untagged_event :: stripe_event where
  "untagged_event = paid_event\<lparr>ev_object := (ev_object paid_event)\<lparr>cs_bookingId := None\<rparr>\<rparr>"

definition untagged_call :: stripe_env where
  "untagged_call = stripe_ok\<lparr>constructEvent :=
     (\<lambda>body signature. if signature = ''t=1,v1=good'' then Some untagged_event else None)\<rparr>"

definition refund_call :: stripe_env where
  "refund_call = stripe_ok\<lparr>constructEvent :=
     (\<lambda>body signature. if signature = ''t=1,v1=good''
        then Some (paid_event\<lparr>ev_type := ''charge.refunded''\<rparr>) else None)\<rparr>"

definition intake_ok :: intake_env where
  "intake_ok =
     \<lparr> is_email = (\<lambda>e. CHR ''@'' \<in> set e),
       signUp = (\<lambda>e p. Auth_User ''u1''),
       codes_query_fails = False, contractor_insert_fails = False,
       request_insert_fails = False, dates_insert_fails = False,
       new_request_id = ''r1'', new_date_id = (\<lambda>i. ''bd'' @ decimal (i + 1)),
       ghl_url_set = True, ghl_post_ok = (\<lambda>i. True) \<rparr>"

definition march_intake :: intake_request where
  "march_intake =
     \<lparr> fullName = Some ''Ada Mason'', companyName = Some ''Mason Ltd'',
       email = Some ''ada@mason.example'', phone = Some ''0123456789'',
       projectPostcode = None, password = Some ''secret1'',
       bookings_field = Some [\<lparr>startDate = ''2024-03-01'', endDate = ''2024-03-10''\<rparr>],
       teamSize = Some 4, budgetPerPerson = None, city = None \<rparr>"

definition backwards_intake :: intake_request where
  "backwards_intake =
     march_intake\<lparr>bookings_field :=
       Some [\<lparr>startDate = ''2024-03-01'', endDate = ''2024-03-10''\<rparr>,
             \<lparr>startDate = ''2024-03-10'', endDate = ''2024-03-01''\<rparr>]\<rparr>"

section \<open>Properties of the property assignment\<close>

subsection \<open>Helper facts\<close>

lemma jan_dates:
  "iso_date ''2024-01-10'' = Some 1704844800000"
  "iso_date ''2024-01-15'' = Some 1705276800000"
  "iso_date ''2024-01-14'' = Some 1705190400000"
  "iso_date ''2024-01-20'' = Some 1705708800000"
  by code_simp+

lemma march_dates:
  "iso_date ''2024-03-01'' = Some 1709251200000"
  "iso_date ''2024-03-10'' = Some 1710028800000"
  by code_simp+

lemma first_conflict_Some:
  "first_conflict D sd ed rows = Some c \<Longrightarrow> c \<in> set rows \<and> dates_overlap D sd ed c"
  by (induction rows) (auto split: if_splits)

lemma first_conflict_finds:
  "b \<in> set rows \<Longrightarrow> dates_overlap D sd ed b \<Longrightarrow> \<exists>c. first_conflict D sd ed rows = Some c"
  by (induction rows) auto

lemma first_conflict_None:
  "first_conflict D sd ed rows = None \<longleftrightarrow> (\<forall>b \<in> set rows. \<not> dates_overlap D sd ed b)"
  by (induction rows) auto

lemma accepted_result:
  assumes "truthy (booking_date_id req)" "truthy (property_id req)"
      "truthy (start_date req)" "truthy (end_date req)"
    and "existingBooking env (text_of (booking_date_id req)) s = None"
    and "date_conflict D env (text_of (property_id req)) (text_of (start_date req))
           (text_of (end_date req)) s = None"
    and "\<not> insert_fails env"
  shows "property_assignment D env req s =
     (Created (bookedPropertyData env req s),
      fst (update_booking_date_status env (text_of (booking_date_id req))
        (fst (update_property_availability env (text_of (property_id req))
           (s\<lparr>booked_properties := booked_properties s @ [bookedPropertyData env req s]\<rparr>)))),
      snd (update_property_availability env (text_of (property_id req))
           (s\<lparr>booked_properties := booked_properties s @ [bookedPropertyData env req s]\<rparr>)) @
      snd (update_booking_date_status env (text_of (booking_date_id req))
        (fst (update_property_availability env (text_of (property_id req))
           (s\<lparr>booked_properties := booked_properties s @ [bookedPropertyData env req s]\<rparr>)))))"
  using assms by (simp add: property_assignment_def Let_def split_beta)

lemma update_property_availability_keeps:
  "booked_properties (fst (update_property_availability env pid s)) = booked_properties s"
  "booking_dates (fst (update_property_availability env pid s)) = booking_dates s"
  "property_update_fails env \<Longrightarrow> update_property_availability env pid s =
     (s, [''Error updating property availability''])"
  by (simp_all add: update_property_availability_def)

lemma update_booking_date_status_keeps:
  "booked_properties (fst (update_booking_date_status env bdid s)) = booked_properties s"
  "properties (fst (update_booking_date_status env bdid s)) = properties s"
  "booking_date_update_fails env \<Longrightarrow> update_booking_date_status env bdid s =
     (s, [''Error updating booking date status''])"
  by (simp_all add: update_booking_date_status_def)

subsection \<open>Date conflicts\<close>

text \<open>
  Claim C1, as the handler implements it. A request with its four required fields, whose
  date range is not found assigned by the existence check, and whose interval overlaps
  (\<open>newStart \<le> existingEnd\<close> and \<open>newEnd \<ge> existingStart\<close>) the interval of a stored
  assignment of the same property, with the overlap query answered: the response is 409
  with code \<open>DATE_CONFLICT\<close>, the store is unchanged (no row inserted), and the response
  carries the start and end date, as stored, of the first overlapping assignment of that
  property in the order the store returns them.
\<close>

theorem date_conflict_rejected:
  assumes fields: "truthy (booking_date_id req)" "truthy (property_id req)"
      "truthy (start_date req)" "truthy (end_date req)"
    and unassigned: "existingBooking env (text_of (booking_date_id req)) s = None"
    and answered: "\<not> overlap_query_fails env"
    and row: "b \<in> set (booked_properties s)" "bp_property_id b = text_of (property_id req)"
    and parsed: "D (text_of (start_date req)) = Some newStart"
      "D (text_of (end_date req)) = Some newEnd"
      "D (bp_start_date b) = Some existingStart" "D (bp_end_date b) = Some existingEnd"
    and overlap: "newStart \<le> existingEnd" "newEnd \<ge> existingStart"
  shows "\<exists>c. c \<in> set (booked_properties s) \<and> bp_property_id c = text_of (property_id req) \<and>
           dates_overlap D (text_of (start_date req)) (text_of (end_date req)) c \<and>
           first_conflict D (text_of (start_date req)) (text_of (end_date req))
             (filter (\<lambda>r. bp_property_id r = text_of (property_id req)) (booked_properties s)) = Some c \<and>
           property_assignment D env req s =
             (Date_Conflict (bp_start_date c) (bp_end_date c), s, []) \<and>
           http_status (fst (property_assignment D env req s)) = 409 \<and>
           error_code (fst (property_assignment D env req s)) = Some ''DATE_CONFLICT'' \<and>
           conflictingDates (fst (property_assignment D env req s)) = Some (bp_start_date c, bp_end_date c)"
proof -
  let ?rows = "filter (\<lambda>r. bp_property_id r = text_of (property_id req)) (booked_properties s)"
  let ?sd = "text_of (start_date req)" and ?ed = "text_of (end_date req)"
  have "b \<in> set ?rows" using row by simp
  moreover have "dates_overlap D ?sd ?ed b"
    using parsed overlap by (simp add: dates_overlap_def)
  ultimately obtain c where c: "first_conflict D ?sd ?ed ?rows = Some c"
    using first_conflict_finds by blast
  then have in_rows: "c \<in> set ?rows" and ov: "dates_overlap D ?sd ?ed c"
    using first_conflict_Some by blast+
  have dc: "date_conflict D env (text_of (property_id req)) ?sd ?ed s = Some c"
    using c answered by (simp add: date_conflict_def existingBookings_def)
  have "property_assignment D env req s = (Date_Conflict (bp_start_date c) (bp_end_date c), s, [])"
    using fields unassigned dc by (simp add: property_assignment_def)
  then show ?thesis using in_rows ov c by auto
qed

text \<open>
  The example of the claim: with an assignment for 2024-01-10 to 2024-01-15, a request for
  2024-01-14 to 2024-01-20 on the same property and another date range is rejected and
  reports 2024-01-10 to 2024-01-15.
\<close>

theorem date_conflict_rejected_witness:
  "property_assignment iso_date no_faults jan_request jan_store =
     (Date_Conflict ''2024-01-10'' ''2024-01-15'', jan_store, []) \<and>
   error_text (fst (property_assignment iso_date no_faults jan_request jan_store)) =
     ''Property is unavailable for the selected dates. Already booked from 2024-01-10 to 2024-01-15''"
proof -
  have "\<exists>c. c \<in> set (booked_properties jan_store) \<and>
          property_assignment iso_date no_faults jan_request jan_store =
            (Date_Conflict (bp_start_date c) (bp_end_date c), jan_store, [])"
    using date_conflict_rejected [of jan_request no_faults jan_store jan_assignment iso_date
        1705190400000 1705708800000 1704844800000 1705276800000]
    by (simp add: jan_request_def jan_store_def jan_assignment_def no_faults_def empty_db_def
        existingBooking_def jan_dates)
  then show ?thesis
    by (auto simp add: jan_store_def jan_assignment_def)
qed

text \<open>
  Claim C1 as stated does not hold for every overlapping request: the same overlapping
  interval, requested for the date range that already holds the assignment, is answered
  with \<open>BOOKING_ALREADY_EXISTS\<close>, since the existence check comes first; requested
  without a date range identifier, it is answered with 400.
\<close>

theorem date_conflict_counterexample:
  "bp_property_id jan_assignment = ''p1'' \<and>
   dates_overlap iso_date ''2024-01-14'' ''2024-01-20'' jan_assignment \<and>
   property_assignment iso_date no_faults (jan_request\<lparr>booking_date_id := Some ''bd1''\<rparr>) jan_store =
     (Booking_Already_Exists, jan_store, []) \<and>
   error_code (fst (property_assignment iso_date no_faults
       (jan_request\<lparr>booking_date_id := Some ''bd1''\<rparr>) jan_store)) \<noteq> Some ''DATE_CONFLICT'' \<and>
   property_assignment iso_date no_faults (jan_request\<lparr>booking_date_id := None\<rparr>) jan_store =
     (Missing_Fields, jan_store, [])"
  by (simp add: jan_request_def jan_store_def jan_assignment_def no_faults_def empty_db_def
      existingBooking_def property_assignment_def dates_overlap_def jan_dates)

subsection \<open>Date ranges that are already assigned\<close>

text \<open>
  Claim C2, as the handler implements it. A request with its four required fields that
  names a date range with exactly one assignment row, with the existence lookup answered:
  the response is 409 with code \<open>BOOKING_ALREADY_EXISTS\<close> whatever the property and the
  interval are, and the store is unchanged. The overlap check is not reached: the result
  is the same when the interval overlaps an assignment of the property.
\<close>

theorem already_assigned_rejected:
  assumes fields: "truthy (booking_date_id req)" "truthy (property_id req)"
      "truthy (start_date req)" "truthy (end_date req)"
    and answered: "\<not> existing_check_fails env"
    and one: "filter (\<lambda>r. bp_booking_id r = text_of (booking_date_id req)) (booked_properties s) = [b]"
  shows "property_assignment D env req s = (Booking_Already_Exists, s, []) \<and>
         http_status (fst (property_assignment D env req s)) = 409 \<and>
         error_code (fst (property_assignment D env req s)) = Some ''BOOKING_ALREADY_EXISTS''"
proof -
  have "existingBooking env (text_of (booking_date_id req)) s = Some b"
    using answered one by (simp add: existingBooking_def)
  then have "property_assignment D env req s = (Booking_Already_Exists, s, [])"
    using fields by (simp add: property_assignment_def)
  then show ?thesis by simp
qed

text \<open>
  The rejection at work, once with an interval that overlaps the stored assignment of the
  property and once with another property and a free interval.
\<close>

theorem already_assigned_rejected_witness:
  "dates_overlap iso_date ''2024-01-14'' ''2024-01-20'' jan_assignment \<and>
   property_assignment iso_date no_faults (jan_request\<lparr>booking_date_id := Some ''bd1''\<rparr>) jan_store =
     (Booking_Already_Exists, jan_store, []) \<and>
   property_assignment iso_date no_faults
     (jan_request\<lparr>booking_date_id := Some ''bd1'', property_id := Some ''p9'',
        start_date := Some ''2024-06-01'', end_date := Some ''2024-06-02''\<rparr>) jan_store =
     (Booking_Already_Exists, jan_store, [])"
  using already_assigned_rejected [of "jan_request\<lparr>booking_date_id := Some ''bd1''\<rparr>"
      no_faults jan_store jan_assignment iso_date]
    already_assigned_rejected [of "jan_request\<lparr>booking_date_id := Some ''bd1'',
        property_id := Some ''p9'', start_date := Some ''2024-06-01'',
        end_date := Some ''2024-06-02''\<rparr>" no_faults jan_store jan_assignment iso_date]
  by (simp add: jan_request_def jan_store_def jan_assignment_def no_faults_def empty_db_def
      dates_overlap_def jan_dates)

text \<open>
  Claim C2 as stated does not hold for every request that names an assigned date range:
  without a property identifier the answer is 400, and when two rows already reference
  the date range the lookup for at most one row yields no data, so that the request is
  accepted and a third row is inserted.
\<close>

theorem already_assigned_counterexample:
  "http_status (fst (property_assignment iso_date no_faults
      (jan_request\<lparr>booking_date_id := Some ''bd1'', property_id := None\<rparr>) jan_store)) = 400 \<and>
   http_status (fst (property_assignment iso_date no_faults june_request twice_assigned_store)) = 201 \<and>
   length (booked_properties (fst (snd (property_assignment iso_date no_faults june_request
      twice_assigned_store)))) = 3"
  by (simp add: jan_request_def jan_store_def jan_assignment_def no_faults_def empty_db_def
      june_request_def twice_assigned_store_def existingBooking_def property_assignment_def
      date_conflict_def existingBookings_def update_property_availability_def
      update_booking_date_status_def Let_def)

subsection \<open>The trailing updates\<close>

text \<open>
  Claim C8. When the request passes the three checks (required fields, no assignment
  found for the date range, no conflicting interval found) and the insert succeeds, the
  response is 201 with the created row and the row is in the store, whether or not the
  two trailing updates fail. An update that fails is logged and leaves its table as it
  was: there is no second attempt, and the inserted row stays.
\<close>

theorem created_despite_update_failures:
  assumes fields: "truthy (booking_date_id req)" "truthy (property_id req)"
      "truthy (start_date req)" "truthy (end_date req)"
    and unassigned: "existingBooking env (text_of (booking_date_id req)) s = None"
    and free: "date_conflict D env (text_of (property_id req)) (text_of (start_date req))
           (text_of (end_date req)) s = None"
    and inserted: "\<not> insert_fails env"
  shows "fst (property_assignment D env req s) = Created (bookedPropertyData env req s) \<and>
         http_status (fst (property_assignment D env req s)) = 201 \<and>
         booked_properties (fst (snd (property_assignment D env req s))) =
           booked_properties s @ [bookedPropertyData env req s] \<and>
         (property_update_fails env \<longrightarrow>
            properties (fst (snd (property_assignment D env req s))) = properties s \<and>
            ''Error updating property availability'' \<in> set (snd (snd (property_assignment D env req s)))) \<and>
         (booking_date_update_fails env \<longrightarrow>
            booking_dates (fst (snd (property_assignment D env req s))) = booking_dates s \<and>
            ''Error updating booking date status'' \<in> set (snd (snd (property_assignment D env req s))))"
  by (simp add: accepted_result [OF assms] update_property_availability_keeps
      update_booking_date_status_keeps)

text \<open>
  Both updates fail: the answer is still 201, the new row is stored, the property is
  still shown available and the date range is still pending.
\<close>

theorem created_despite_update_failures_witness:
  "http_status (fst (property_assignment iso_date failing_updates march_request march_store)) = 201 \<and>
   booked_properties (fst (snd (property_assignment iso_date failing_updates march_request march_store))) =
     [jan_assignment, bookedPropertyData failing_updates march_request march_store] \<and>
   properties (fst (snd (property_assignment iso_date failing_updates march_request march_store))) =
     [\<lparr>pr_id = ''p1'', pr_price = 50, pr_is_available = True\<rparr>] \<and>
   map bd_status (booking_dates (fst (snd (property_assignment iso_date failing_updates
     march_request march_store)))) = [''pending'']"
  using created_despite_update_failures [of march_request failing_updates march_store iso_date]
  by (simp add: march_request_def jan_request_def march_store_def jan_store_def
      jan_assignment_def failing_updates_def no_faults_def empty_db_def existingBooking_def
      date_conflict_def existingBookings_def dates_overlap_def jan_dates march_dates)

subsection \<open>Unknown date ranges\<close>

text \<open>
  Claim C10, as the handler implements it. The handler never answers 404. When no
  \<open>booking_dates\<close> row has the requested identifier, a request that has its four
  required fields, passes the existence check and the overlap check and whose insert
  succeeds is answered with 201, and the inserted row has no booking request
  identifier. Nothing is asked of the \<open>properties\<close> table either.
\<close>

theorem created_without_date_range:
  "http_status (fst (property_assignment D env req s)) \<noteq> 404 \<and>
   (truthy (booking_date_id req) \<and> truthy (property_id req) \<and>
    truthy (start_date req) \<and> truthy (end_date req) \<and>
    filter (\<lambda>d. bd_id d = text_of (booking_date_id req)) (booking_dates s) = [] \<and>
    existingBooking env (text_of (booking_date_id req)) s = None \<and>
    date_conflict D env (text_of (property_id req)) (text_of (start_date req))
      (text_of (end_date req)) s = None \<and>
    \<not> insert_fails env \<longrightarrow>
    (\<exists>row. fst (property_assignment D env req s) = Created row \<and>
       bp_booking_request_id row = None \<and>
       bp_booking_id row = text_of (booking_date_id req) \<and>
       http_status (fst (property_assignment D env req s)) = 201 \<and>
       booked_properties (fst (snd (property_assignment D env req s))) =
         booked_properties s @ [row]))"
proof
  show "http_status (fst (property_assignment D env req s)) \<noteq> 404"
    by (cases "fst (property_assignment D env req s)") simp_all
next
  show "truthy (booking_date_id req) \<and> truthy (property_id req) \<and>
    truthy (start_date req) \<and> truthy (end_date req) \<and>
    filter (\<lambda>d. bd_id d = text_of (booking_date_id req)) (booking_dates s) = [] \<and>
    existingBooking env (text_of (booking_date_id req)) s = None \<and>
    date_conflict D env (text_of (property_id req)) (text_of (start_date req))
      (text_of (end_date req)) s = None \<and>
    \<not> insert_fails env \<longrightarrow>
    (\<exists>row. fst (property_assignment D env req s) = Created row \<and>
       bp_booking_request_id row = None \<and>
       bp_booking_id row = text_of (booking_date_id req) \<and>
       http_status (fst (property_assignment D env req s)) = 201 \<and>
       booked_properties (fst (snd (property_assignment D env req s))) =
         booked_properties s @ [row])"
  proof (intro impI, elim conjE)
    assume a: "truthy (booking_date_id req)" "truthy (property_id req)"
      "truthy (start_date req)" "truthy (end_date req)"
      "existingBooking env (text_of (booking_date_id req)) s = None"
      "date_conflict D env (text_of (property_id req)) (text_of (start_date req))
        (text_of (end_date req)) s = None"
      "\<not> insert_fails env"
    assume absent: "filter (\<lambda>d. bd_id d = text_of (booking_date_id req)) (booking_dates s) = []"
    have "bookingRequestId env (text_of (booking_date_id req)) s = None"
      using absent by (cases "booking_date_lookup_fails env") (simp_all add: bookingRequestId_def)
    then have "bp_booking_request_id (bookedPropertyData env req s) = None"
      "bp_booking_id (bookedPropertyData env req s) = text_of (booking_date_id req)"
      by (simp_all add: bookedPropertyData_def)
    then show "\<exists>row. fst (property_assignment D env req s) = Created row \<and>
       bp_booking_request_id row = None \<and>
       bp_booking_id row = text_of (booking_date_id req) \<and>
       http_status (fst (property_assignment D env req s)) = 201 \<and>
       booked_properties (fst (snd (property_assignment D env req s))) =
         booked_properties s @ [row]"
      by (simp add: accepted_result [OF a] update_property_availability_keeps
          update_booking_date_status_keeps)
  qed
qed

text \<open>
  A store with no date range and no property at all: the assignment is created.
\<close>

theorem created_without_date_range_witness:
  "filter (\<lambda>d. bd_id d = ''bd2'') (booking_dates jan_store) = [] \<and>
   properties jan_store = [] \<and>
   http_status (fst (property_assignment iso_date no_faults march_request jan_store)) = 201 \<and>
   map bp_booking_request_id (booked_properties (fst (snd (property_assignment iso_date no_faults
     march_request jan_store)))) = [None, None] \<and>
   map bp_booking_id (booked_properties (fst (snd (property_assignment iso_date no_faults
     march_request jan_store)))) = [''bd1'', ''bd2'']"
  using created_without_date_range [of iso_date no_faults march_request jan_store]
  by (auto simp add: march_request_def jan_request_def jan_store_def
      jan_assignment_def no_faults_def empty_db_def existingBooking_def
      date_conflict_def existingBookings_def dates_overlap_def jan_dates march_dates)

text \<open>
  Claim C10 as stated does not hold for every request that names an unknown date range:
  when its interval overlaps an assignment of the property, the request is answered with
  409 and nothing is inserted.
\<close>

theorem created_without_date_range_counterexample:
  "filter (\<lambda>d. bd_id d = ''bd2'') (booking_dates jan_store) = [] \<and>
   booking_date_id jan_request = Some ''bd2'' \<and>
   http_status (fst (property_assignment iso_date no_faults jan_request jan_store)) = 409 \<and>
   fst (snd (property_assignment iso_date no_faults jan_request jan_store)) = jan_store"
  by (simp add: jan_request_def jan_store_def jan_assignment_def no_faults_def empty_db_def
      existingBooking_def property_assignment_def date_conflict_def existingBookings_def
      dates_overlap_def jan_dates)

section \<open>Properties of the payment session\<close>

lemma single_Some: "fst (single f rows) = Some r \<Longrightarrow> rows = [r] \<and> \<not> f"
  by (cases "(f, rows)" rule: single.cases) auto

lemma filter_singletonD:
  assumes "filter P xs = [x]"
  shows "P x \<and> x \<in> set xs"
proof -
  have "x \<in> set (filter P xs)" using assms by simp
  then show ?thesis by simp
qed

lemma round_half_even_int: "round_half_even (of_int z) = z"
  by (simp add: round_half_even_def)

lemma divide_pow2:
  assumes "e \<le> 0"
  shows "(of_int n :: rat) / pow2 e = of_int (n * 2 ^ nat (- e))"
  using assms by (simp add: pow2_def)

lemma times_pow2:
  assumes "e \<le> 0"
  shows "(of_int n :: rat) * 2 ^ nat (- e) * pow2 e = of_int n"
  using assms by (simp add: pow2_def)

lemma bitlen_one: "bitlen 1 = 1"
  by code_simp

lemma exponent_of_int:
  assumes "\<bar>n\<bar> < 2 ^ 53"
  shows "exponent_of (of_int n) \<le> 0"
proof -
  have a: "\<bar>of_int n :: rat\<bar> = of_int \<bar>n\<bar>" by simp
  have "quotient_of (of_int \<bar>n\<bar> :: rat) = (\<bar>n\<bar>, 1)"
    by (rule quotient_of_rat_of_int)
  then have q: "quotient_of \<bar>of_int n :: rat\<bar> = (\<bar>n\<bar>, 1)"
    by (simp only: a)
  have b: "bitlen \<bar>n\<bar> \<le> 53"
    using assms bitlen_le_iff_power [of "\<bar>n\<bar>" 53] by simp
  have "exponent_of (of_int n) \<le> max (- 1074) (bitlen \<bar>n\<bar> - 1 - 52)"
    unfolding exponent_of_def q Let_def prod.case bitlen_one by (auto simp add: max_def)
  then show ?thesis using b by simp
qed

lemma binary64_of_int:
  assumes "\<bar>n\<bar> < 2 ^ 53"
  shows "binary64 (of_int n) = Some (of_int n)"
proof (cases "n = 0")
  case True
  then show ?thesis by (simp add: binary64_def)
next
  case False
  define e where "e = exponent_of (of_int n)"
  have e: "e \<le> 0" unfolding e_def by (rule exponent_of_int [OF assms])
  have a: "\<bar>of_int n :: rat\<bar> = of_int \<bar>n\<bar>" by simp
  have d: "\<bar>of_int n :: rat\<bar> / pow2 e = of_int (\<bar>n\<bar> * 2 ^ nat (- e))"
    unfolding a by (rule divide_pow2 [OF e])
  have m: "round_half_even (\<bar>of_int n :: rat\<bar> / pow2 e) = \<bar>n\<bar> * 2 ^ nat (- e)"
    unfolding d by (rule round_half_even_int)
  have "sgn (of_int n :: rat) * of_int (\<bar>n\<bar> * 2 ^ nat (- e)) * pow2 e =
      sgn (of_int n) * (of_int \<bar>n\<bar> * 2 ^ nat (- e) * pow2 e)"
    by (simp add: mult.assoc)
  also have "\<dots> = sgn (of_int n :: rat) * of_int \<bar>n\<bar>"
    unfolding times_pow2 [OF e] ..
  also have "\<dots> = of_int n"
    unfolding a [symmetric] by (rule sgn_mult_abs)
  finally have v: "sgn (of_int n :: rat) * of_int (\<bar>n\<bar> * 2 ^ nat (- e)) * pow2 e = of_int n" .
  have nz: "(of_int n :: rat) \<noteq> 0" using False by simp
  have ne: "e \<noteq> 971" "\<not> 971 < e" using e by simp_all
  show ?thesis
    unfolding binary64_def Let_def e_def [symmetric] m
    using nz ne v by (simp only: if_False simp_thms)
qed


lemma whole_days_total:
  assumes span: "endTime - startTime = n * 86400000"
    and small: "\<bar>endTime\<bar> < 2 ^ 53" "\<bar>startTime\<bar> < 2 ^ 53" "\<bar>endTime - startTime\<bar> < 2 ^ 53"
      "\<bar>n\<bar> < 2 ^ 53" "\<bar>p\<bar> < 2 ^ 53" "\<bar>p * n\<bar> < 2 ^ 53"
  shows "js_times (binary64 (of_int p))
     (Math_ceil (js_divide (js_minus (binary64 (of_int endTime)) (binary64 (of_int startTime)))
        (binary64 86400000))) = Some (of_int (p * n))"
proof -
  have "binary64 (of_int 86400000) = Some (of_int 86400000)"
    by (rule binary64_of_int) simp
  then have day: "binary64 86400000 = Some 86400000" by simp
  have d: "(of_int endTime :: rat) - of_int startTime = of_int (endTime - startTime)" by simp
  have diff: "js_minus (binary64 (of_int endTime)) (binary64 (of_int startTime)) =
      Some (of_int (endTime - startTime))"
    unfolding binary64_of_int [OF small(1)] binary64_of_int [OF small(2)] js_minus.simps d
    by (rule binary64_of_int [OF small(3)])
  have q: "(of_int (endTime - startTime) :: rat) / 86400000 = of_int n"
    unfolding span by simp
  have days: "js_divide (Some (of_int (endTime - startTime))) (Some 86400000) = Some (of_int n)"
  proof -
    have "js_divide (Some (of_int (endTime - startTime))) (Some 86400000) =
        binary64 (of_int (endTime - startTime) / 86400000)"
      by (simp only: js_divide.simps) simp
    then show ?thesis unfolding q by (simp only: binary64_of_int [OF small(4)])
  qed
  have c: "Math_ceil (Some (of_int n)) = Some (of_int n)"
    by (simp add: Math_ceil_def)
  have m: "(of_int p :: rat) * of_int n = of_int (p * n)" by simp
  have t: "js_times (Some (of_int p)) (Some (of_int n)) = Some (of_int (p * n))"
    unfolding js_times.simps m by (rule binary64_of_int [OF small(6)])
  show ?thesis
    unfolding binary64_of_int [OF small(5)] diff day days c by (rule t)
qed

lemma uuid_ok: "hex_uuid ''11111111-1111-4111-8111-111111111111''"
  by code_simp



lemma rounding_examples:
  "js_times (binary64 (1 / 10)) (Some 3) = Some (1351079888211149 / 4503599627370496)"
  "js_times (binary64 (1 / 10)) (Some 3) \<noteq> Some (3 / 10)"
  "Math_round (js_times (binary64 (1005 / 1000)) (Some 100)) = Some 100"
  by code_simp+


text \<open>
  Claim C9, as the handler implements it. An invoice is created when a payment session
  is opened: a successful call appends exactly one invoice row, unpaid and holding the
  session reference, that references the booking of the request, so that the number of
  invoice rows of that booking grows by one; a call that is not answered with 200
  leaves the store as it was. The handler does not look for an earlier invoice.
\<close>

theorem invoice_per_session:
  "(create_session D env booking_id s = (Session_Created sid url invoice, s', fx) \<longrightarrow>
      booking_id = Some (inv_booking_id invoice) \<and>
      inv_stripe_session_id invoice = Some sid \<and>
      inv_status invoice = ''unpaid'' \<and>
      s' = s\<lparr>invoices := invoices s @ [invoice]\<rparr> \<and>
      length (filter (\<lambda>i. inv_booking_id i = inv_booking_id invoice) (invoices s')) =
        length (filter (\<lambda>i. inv_booking_id i = inv_booking_id invoice) (invoices s)) + 1) \<and>
   (session_status (fst (create_session D env booking_id s)) \<noteq> 200 \<longrightarrow>
      fst (snd (create_session D env booking_id s)) = s)"
proof (intro conjI impI)
  assume a: "create_session D env booking_id s = (Session_Created sid url invoice, s', fx)"
  then have "\<exists>bid booking. booking_id = Some bid \<and>
      fst (single (booking_lookup_fails env) (filter (\<lambda>b. bk_id b = bid) (bookings s))) = Some booking \<and>
      inv_booking_id invoice = bk_id booking \<and> inv_stripe_session_id invoice = Some sid \<and>
      inv_status invoice = ''unpaid'' \<and> s' = s\<lparr>invoices := invoices s @ [invoice]\<rparr>"
    by (auto simp add: create_session_def Let_def
        split: option.splits if_splits prod.splits)
  then obtain bid booking where
    bid: "booking_id = Some bid"
    and booking: "fst (single (booking_lookup_fails env) (filter (\<lambda>b. bk_id b = bid) (bookings s))) = Some booking"
    and inv: "inv_booking_id invoice = bk_id booking" "inv_stripe_session_id invoice = Some sid"
      "inv_status invoice = ''unpaid''"
    and s': "s' = s\<lparr>invoices := invoices s @ [invoice]\<rparr>"
    by blast
  have "bk_id booking = bid"
    using single_Some [OF booking] filter_singletonD [of "\<lambda>b. bk_id b = bid" "bookings s" booking]
    by simp
  then show "booking_id = Some (inv_booking_id invoice)" using bid inv by simp
  show "inv_stripe_session_id invoice = Some sid" using inv by simp
  show "inv_status invoice = ''unpaid''" using inv by simp
  show "s' = s\<lparr>invoices := invoices s @ [invoice]\<rparr>" by (rule s')
  show "length (filter (\<lambda>i. inv_booking_id i = inv_booking_id invoice) (invoices s')) =
        length (filter (\<lambda>i. inv_booking_id i = inv_booking_id invoice) (invoices s)) + 1"
    using s' by simp
next
  assume "session_status (fst (create_session D env booking_id s)) \<noteq> 200"
  then show "fst (snd (create_session D env booking_id s)) = s"
    by (auto simp add: create_session_def Let_def
        split: option.splits if_splits prod.splits)
qed

text \<open>
  One successful call stores one invoice of the booking; a call with a malformed
  identifier stores nothing.
\<close>

theorem invoice_per_session_witness:
  "map inv_booking_id (invoices (fst (snd (create_session iso_date stripe_ok
     (Some ''11111111-1111-4111-8111-111111111111'') booking_store)))) =
     [''11111111-1111-4111-8111-111111111111''] \<and>
   fst (snd (create_session iso_date stripe_ok (Some ''not-a-uuid'') booking_store)) = booking_store"
proof -
  obtain r s' fx where c: "create_session iso_date stripe_ok
     (Some ''11111111-1111-4111-8111-111111111111'') booking_store = (r, s', fx)"
    by (cases "create_session iso_date stripe_ok
     (Some ''11111111-1111-4111-8111-111111111111'') booking_store") auto
  then obtain sid url invoice where r: "r = Session_Created sid url invoice"
    by (auto simp add: create_session_def Let_def stripe_ok_def uuid_ok booking_store_def
        march_store_def jan_store_def empty_db_def march_booking_def property_of_def
        createCheckoutSession_def)
  have bad: "\<not> hex_uuid ''not-a-uuid''" by (simp add: hex_uuid_def)
  have "session_status (fst (create_session iso_date stripe_ok (Some ''not-a-uuid'')
      booking_store)) \<noteq> 200"
    using bad by (simp add: create_session_def stripe_ok_def)
  then show ?thesis
    using invoice_per_session [of iso_date stripe_ok
        "Some ''11111111-1111-4111-8111-111111111111''" booking_store sid url invoice s' fx]
      invoice_per_session [of iso_date stripe_ok "Some ''not-a-uuid''" booking_store]
      c r
    by (auto simp add: booking_store_def march_store_def jan_store_def empty_db_def)
qed

text \<open>
  Claim C9 as stated does not hold: after two calls for the same booking, two invoice
  rows reference it.
\<close>

theorem one_invoice_counterexample:
  "map inv_booking_id (invoices (fst (snd (create_session iso_date second_call
     (Some ''11111111-1111-4111-8111-111111111111'')
     (fst (snd (create_session iso_date stripe_ok
        (Some ''11111111-1111-4111-8111-111111111111'') booking_store))))))) =
   [''11111111-1111-4111-8111-111111111111'', ''11111111-1111-4111-8111-111111111111'']"
  by (simp add: create_session_def Let_def stripe_ok_def second_call_def uuid_ok booking_store_def
        march_store_def jan_store_def empty_db_def march_booking_def property_of_def
        createCheckoutSession_def)

section \<open>Properties of the payment callback\<close>

lemma sendWebhookEvent_posts: "length (filter is_post (sendWebhookEvent env t d)) \<le> 1"
  by (simp add: sendWebhookEvent_def)

lemma webhook_completed:
  assumes "truthy signature"
    and "constructWebhookEvent env body (text_of signature) = Some event"
    and "ev_type event = ''checkout.session.completed''"
    and "cs_bookingId (ev_object event) = Some bookingId" "bookingId \<noteq> []"
    and "\<not> invoice_update_fails env" "\<not> booking_update_fails env"
  shows "webhook env body signature s =
     (Received, mark_booking_paid env bookingId (mark_invoice_paid env (cs_id (ev_object event)) s),
      sendWebhookEvent env ''payment_succeeded''
        [(''booking_id'', JStr bookingId),
         (''stripe_session_id'', JStr (cs_id (ev_object event))),
         (''amount_paid'', jnum (amount_paid (ev_object event))),
         (''payment_status'', jstr (cs_payment_status (ev_object event)))])"
  using assms by (simp add: webhook_def session_completed_def Let_def jstr_def)

lemma invoices_marked:
  "invoices (mark_booking_paid env b s) = invoices s"
  "bookings (mark_invoice_paid env sid s) = bookings s"
  by (simp_all add: mark_booking_paid_def mark_invoice_paid_def)

lemma invoice_paid_after_marking:
  assumes "i \<in> set (invoices (mark_invoice_paid env sid s))"
    and "inv_stripe_session_id i = Some sid"
  shows "inv_status i = ''paid''"
proof -
  obtain j where j: "j \<in> set (invoices s)"
    and i: "i = (if inv_stripe_session_id j = Some sid
                 then j\<lparr>inv_status := ''paid'', inv_updated_at := now_invoice env\<rparr> else j)"
    using assms(1) unfolding mark_invoice_paid_def by auto
  show ?thesis
  proof (cases "inv_stripe_session_id j = Some sid")
    case True
    then show ?thesis using i by simp
  next
    case False
    then have "i = j" using i by simp
    then show ?thesis using assms(2) False by simp
  qed
qed

lemma booking_paid_after_marking:
  assumes "k \<in> set (bookings (mark_booking_paid env b s))"
    and "bk_id k = b"
  shows "bk_status k = ''paid''"
proof -
  obtain j where j: "j \<in> set (bookings s)"
    and k: "k = (if bk_id j = b
                 then j\<lparr>bk_status := ''paid'', bk_updated_at := now_booking env\<rparr> else j)"
    using assms(1) unfolding mark_booking_paid_def by auto
  show ?thesis
  proof (cases "bk_id j = b")
    case True
    then show ?thesis using k by simp
  next
    case False
    then have "k = j" using k by simp
    then show ?thesis using assms(2) False by simp
  qed
qed

lemma marking_twice:
  "mark_booking_paid env2 b (mark_invoice_paid env2 sid
     (mark_booking_paid env1 b (mark_invoice_paid env1 sid s))) =
   (mark_booking_paid env1 b (mark_invoice_paid env1 sid s))
     \<lparr>invoices := map (\<lambda>i. if inv_stripe_session_id i = Some sid
                             then i\<lparr>inv_updated_at := now_invoice env2\<rparr> else i)
         (invoices (mark_booking_paid env1 b (mark_invoice_paid env1 sid s))),
      bookings := map (\<lambda>k. if bk_id k = b then k\<lparr>bk_updated_at := now_booking env2\<rparr> else k)
         (bookings (mark_booking_paid env1 b (mark_invoice_paid env1 sid s)))\<rparr>"
  by (simp add: mark_booking_paid_def mark_invoice_paid_def)

lemma marking_twice_same_clock:
  "now_invoice env2 = now_invoice env1 \<Longrightarrow> now_booking env2 = now_booking env1 \<Longrightarrow>
   mark_booking_paid env2 b (mark_invoice_paid env2 sid
     (mark_booking_paid env1 b (mark_invoice_paid env1 sid s))) =
   mark_booking_paid env1 b (mark_invoice_paid env1 sid s)"
  by (simp add: mark_booking_paid_def mark_invoice_paid_def)

lemma stripe_ok_fields:
  "stripe_configured stripe_ok" "webhook_secret_set stripe_ok"
  "\<not> invoice_update_fails stripe_ok" "\<not> booking_update_fails stripe_ok"
  "constructEvent stripe_ok body ''t=1,v1=good'' = Some paid_event"
  "now_invoice stripe_ok = ''2024-02-01T10:00:00.000Z''"
  "now_booking stripe_ok = ''2024-02-01T10:00:00.001Z''"
  by (simp_all add: stripe_ok_def)

lemma later_call_fields:
  "stripe_configured later_call" "webhook_secret_set later_call"
  "\<not> invoice_update_fails later_call" "\<not> booking_update_fails later_call"
  "constructEvent later_call body ''t=1,v1=good'' = Some paid_event"
  "now_invoice later_call = ''2024-02-01T10:05:00.000Z''"
  "now_booking later_call = ''2024-02-01T10:05:00.001Z''"
  by (simp_all add: later_call_def stripe_ok_def)

lemma paid_event_fields:
  "ev_type paid_event = ''checkout.session.completed''"
  "cs_bookingId (ev_object paid_event) = Some ''11111111-1111-4111-8111-111111111111''"
  "cs_id (ev_object paid_event) = ''cs_test_1''"
  by (simp_all add: paid_event_def march_session_def)

lemma good_signature:
  "constructWebhookEvent stripe_ok body ''t=1,v1=good'' = Some paid_event"
  "constructWebhookEvent later_call body ''t=1,v1=good'' = Some paid_event"
  by (simp_all add: constructWebhookEvent_def stripe_ok_fields later_call_fields)

lemma first_confirmation:
  "webhook stripe_ok body (Some ''t=1,v1=good'') s =
     (Received,
      mark_booking_paid stripe_ok ''11111111-1111-4111-8111-111111111111''
        (mark_invoice_paid stripe_ok ''cs_test_1'' s),
      snd (snd (webhook stripe_ok body (Some ''t=1,v1=good'') s)))"
  using webhook_completed [of "Some ''t=1,v1=good''" stripe_ok body paid_event
      "''11111111-1111-4111-8111-111111111111''" s]
  by (simp add: good_signature paid_event_fields stripe_ok_fields)

lemma replay_confirmation:
  "webhook later_call body (Some ''t=1,v1=good'') s =
     (Received,
      mark_booking_paid later_call ''11111111-1111-4111-8111-111111111111''
        (mark_invoice_paid later_call ''cs_test_1'' s),
      snd (snd (webhook later_call body (Some ''t=1,v1=good'') s)))"
  using webhook_completed [of "Some ''t=1,v1=good''" later_call body paid_event
      "''11111111-1111-4111-8111-111111111111''" s]
  by (simp add: good_signature paid_event_fields later_call_fields)

lemma confirmed_rows:
  "map inv_status (invoices (mark_booking_paid e ''11111111-1111-4111-8111-111111111111''
     (mark_invoice_paid e ''cs_test_1'' unpaid_store))) = [''paid'']"
  "map inv_updated_at (invoices (mark_booking_paid e ''11111111-1111-4111-8111-111111111111''
     (mark_invoice_paid e ''cs_test_1'' unpaid_store))) = [now_invoice e]"
  "map bk_status (bookings (mark_booking_paid e ''11111111-1111-4111-8111-111111111111''
     (mark_invoice_paid e ''cs_test_1'' unpaid_store))) = [''paid'']"
  by (simp_all add: mark_booking_paid_def mark_invoice_paid_def unpaid_store_def
      booking_store_def march_booking_def)

lemma replayed_rows:
  "map inv_status (invoices (mark_booking_paid e2 ''11111111-1111-4111-8111-111111111111''
     (mark_invoice_paid e2 ''cs_test_1''
       (mark_booking_paid e ''11111111-1111-4111-8111-111111111111''
         (mark_invoice_paid e ''cs_test_1'' unpaid_store))))) = [''paid'']"
  "map inv_updated_at (invoices (mark_booking_paid e2 ''11111111-1111-4111-8111-111111111111''
     (mark_invoice_paid e2 ''cs_test_1''
       (mark_booking_paid e ''11111111-1111-4111-8111-111111111111''
         (mark_invoice_paid e ''cs_test_1'' unpaid_store))))) = [now_invoice e2]"
  "map bk_status (bookings (mark_booking_paid e2 ''11111111-1111-4111-8111-111111111111''
     (mark_invoice_paid e2 ''cs_test_1''
       (mark_booking_paid e ''11111111-1111-4111-8111-111111111111''
         (mark_invoice_paid e ''cs_test_1'' unpaid_store))))) = [''paid'']"
  by (simp_all add: mark_booking_paid_def mark_invoice_paid_def unpaid_store_def
      booking_store_def march_booking_def)

text \<open>
  Claim C3, as the handler implements it. The verified callback of a completed session,
  applied twice with the same session, the store answering each update: both
  applications are answered with 200; after each of them every invoice of that session
  and every booking with the identifier of the session metadata has status \<open>paid\<close>; each
  application posts at most one notification; and the replay changes nothing in the
  store but the \<open>updated_at\<close> of those rows, which takes the time of the replay. When
  the clock reads the same, the replay leaves the store as it is.
\<close>

theorem payment_confirmation_replay:
  assumes signed: "truthy signature"
    and verified: "constructWebhookEvent env1 body (text_of signature) = Some event"
      "constructWebhookEvent env2 body (text_of signature) = Some event"
    and completed: "ev_type event = ''checkout.session.completed''"
    and tagged: "cs_bookingId (ev_object event) = Some bookingId" "bookingId \<noteq> []"
    and answered: "\<not> invoice_update_fails env1" "\<not> booking_update_fails env1"
      "\<not> invoice_update_fails env2" "\<not> booking_update_fails env2"
    and first: "webhook env1 body signature s = (r1, s1, fx1)"
    and replay: "webhook env2 body signature s1 = (r2, s2, fx2)"
  shows "r1 = Received \<and> r2 = Received \<and>
    webhook_status r1 = 200 \<and> webhook_status r2 = 200 \<and>
    (\<forall>i \<in> set (invoices s1).
       inv_stripe_session_id i = Some (cs_id (ev_object event)) \<longrightarrow> inv_status i = ''paid'') \<and>
    (\<forall>i \<in> set (invoices s2).
       inv_stripe_session_id i = Some (cs_id (ev_object event)) \<longrightarrow> inv_status i = ''paid'') \<and>
    (\<forall>k \<in> set (bookings s1). bk_id k = bookingId \<longrightarrow> bk_status k = ''paid'') \<and>
    (\<forall>k \<in> set (bookings s2). bk_id k = bookingId \<longrightarrow> bk_status k = ''paid'') \<and>
    length (filter is_post fx1) \<le> 1 \<and> length (filter is_post fx2) \<le> 1 \<and>
    s2 = s1\<lparr>invoices := map (\<lambda>i. if inv_stripe_session_id i = Some (cs_id (ev_object event))
                                  then i\<lparr>inv_updated_at := now_invoice env2\<rparr> else i) (invoices s1),
             bookings := map (\<lambda>k. if bk_id k = bookingId
                                  then k\<lparr>bk_updated_at := now_booking env2\<rparr> else k) (bookings s1)\<rparr> \<and>
    (now_invoice env2 = now_invoice env1 \<and> now_booking env2 = now_booking env1 \<longrightarrow> s2 = s1)"
proof -
  let ?sid = "cs_id (ev_object event)"
  have w1: "(r1, s1, fx1) =
      (Received, mark_booking_paid env1 bookingId (mark_invoice_paid env1 ?sid s),
       sendWebhookEvent env1 ''payment_succeeded''
        [(''booking_id'', JStr bookingId),
         (''stripe_session_id'', JStr ?sid),
         (''amount_paid'', jnum (amount_paid (ev_object event))),
         (''payment_status'', jstr (cs_payment_status (ev_object event)))])"
    unfolding first [symmetric]
    by (rule webhook_completed [OF signed verified(1) completed tagged answered(1,2)])
  have w2: "(r2, s2, fx2) =
      (Received, mark_booking_paid env2 bookingId (mark_invoice_paid env2 ?sid s1),
       sendWebhookEvent env2 ''payment_succeeded''
        [(''booking_id'', JStr bookingId),
         (''stripe_session_id'', JStr ?sid),
         (''amount_paid'', jnum (amount_paid (ev_object event))),
         (''payment_status'', jstr (cs_payment_status (ev_object event)))])"
    unfolding replay [symmetric]
    by (rule webhook_completed [OF signed verified(2) completed tagged answered(3,4)])
  have one: "r1 = Received" "s1 = mark_booking_paid env1 bookingId (mark_invoice_paid env1 ?sid s)"
    "length (filter is_post fx1) \<le> 1"
    using w1 sendWebhookEvent_posts by simp_all
  have two: "r2 = Received" "s2 = mark_booking_paid env2 bookingId (mark_invoice_paid env2 ?sid s1)"
    "length (filter is_post fx2) \<le> 1"
    using w2 sendWebhookEvent_posts by simp_all
  have inv1: "\<forall>i \<in> set (invoices s1). inv_stripe_session_id i = Some ?sid \<longrightarrow> inv_status i = ''paid''"
    unfolding one(2) invoices_marked using invoice_paid_after_marking by blast
  have inv2: "\<forall>i \<in> set (invoices s2). inv_stripe_session_id i = Some ?sid \<longrightarrow> inv_status i = ''paid''"
    unfolding two(2) invoices_marked using invoice_paid_after_marking by blast
  have bk1: "\<forall>k \<in> set (bookings s1). bk_id k = bookingId \<longrightarrow> bk_status k = ''paid''"
    using booking_paid_after_marking unfolding one(2) by blast
  have bk2: "\<forall>k \<in> set (bookings s2). bk_id k = bookingId \<longrightarrow> bk_status k = ''paid''"
    using booking_paid_after_marking unfolding two(2) by blast
  have only_clock: "s2 = s1\<lparr>invoices := map (\<lambda>i. if inv_stripe_session_id i = Some ?sid
                                  then i\<lparr>inv_updated_at := now_invoice env2\<rparr> else i) (invoices s1),
             bookings := map (\<lambda>k. if bk_id k = bookingId
                                  then k\<lparr>bk_updated_at := now_booking env2\<rparr> else k) (bookings s1)\<rparr>"
    unfolding two(2) one(2) by (rule marking_twice)
  have same: "now_invoice env2 = now_invoice env1 \<and> now_booking env2 = now_booking env1 \<longrightarrow> s2 = s1"
    unfolding two(2) one(2) using marking_twice_same_clock by blast
  have ok: "webhook_status r1 = 200" "webhook_status r2 = 200"
    using one(1) two(1) by simp_all
  show ?thesis
    by (intro conjI)
      (fact one(1) two(1) ok inv1 inv2 bk1 bk2 one(3) two(3) only_clock same)+
qed

text \<open>
  An unpaid invoice and a pending booking, confirmed and then confirmed again five
  minutes later: both answers are 200 and both rows are paid.
\<close>

theorem payment_confirmation_replay_witness:
  "fst (webhook stripe_ok ''{}'' (Some ''t=1,v1=good'') unpaid_store) = Received \<and>
   fst (webhook later_call ''{}'' (Some ''t=1,v1=good'')
     (fst (snd (webhook stripe_ok ''{}'' (Some ''t=1,v1=good'') unpaid_store)))) = Received \<and>
   map inv_status (invoices (fst (snd (webhook later_call ''{}'' (Some ''t=1,v1=good'')
     (fst (snd (webhook stripe_ok ''{}'' (Some ''t=1,v1=good'') unpaid_store))))))) = [''paid''] \<and>
   map bk_status (bookings (fst (snd (webhook later_call ''{}'' (Some ''t=1,v1=good'')
     (fst (snd (webhook stripe_ok ''{}'' (Some ''t=1,v1=good'') unpaid_store))))))) = [''paid'']"
proof -
  obtain r1 s1 fx1 where first:
    "webhook stripe_ok ''{}'' (Some ''t=1,v1=good'') unpaid_store = (r1, s1, fx1)"
    using prod_cases3 by blast
  obtain r2 s2 fx2 where replay:
    "webhook later_call ''{}'' (Some ''t=1,v1=good'') s1 = (r2, s2, fx2)"
    using prod_cases3 by blast
  have signed: "truthy (Some ''t=1,v1=good'')" by simp
  have v1: "constructWebhookEvent stripe_ok ''{}'' (text_of (Some ''t=1,v1=good'')) = Some paid_event"
    and v2: "constructWebhookEvent later_call ''{}'' (text_of (Some ''t=1,v1=good'')) = Some paid_event"
    by (simp_all add: good_signature)
  have tag: "''11111111-1111-4111-8111-111111111111'' \<noteq> []" by simp
  note replayed = payment_confirmation_replay [OF signed v1 v2 paid_event_fields(1,2) tag
      stripe_ok_fields(3,4) later_call_fields(3,4) first replay]
  have r1: "r1 = Received" by (rule replayed [THEN conjunct1])
  have r2: "r2 = Received" by (rule replayed [THEN conjunct2, THEN conjunct1])
  have s1: "s1 = mark_booking_paid stripe_ok ''11111111-1111-4111-8111-111111111111''
        (mark_invoice_paid stripe_ok ''cs_test_1'' unpaid_store)"
    using first first_confirmation [of "''{}''" unpaid_store] by simp
  have s2: "s2 = mark_booking_paid later_call ''11111111-1111-4111-8111-111111111111''
        (mark_invoice_paid later_call ''cs_test_1'' s1)"
    using replay replay_confirmation [of "''{}''" s1] by simp
  show ?thesis
    unfolding first fst_conv snd_conv replay
    unfolding r1 r2 s2 s1 replayed_rows by simp
qed

text \<open>
  Claim C3 as stated does not hold in one point: the replay is not a no-op on the store,
  since the update also writes \<open>updated_at\<close>. Five minutes later the invoice row
  carries the later time.
\<close>

theorem replay_counterexample:
  "fst (snd (webhook later_call ''{}'' (Some ''t=1,v1=good'')
     (fst (snd (webhook stripe_ok ''{}'' (Some ''t=1,v1=good'') unpaid_store))))) \<noteq>
   fst (snd (webhook stripe_ok ''{}'' (Some ''t=1,v1=good'') unpaid_store)) \<and>
   map inv_updated_at (invoices (fst (snd (webhook stripe_ok ''{}'' (Some ''t=1,v1=good'')
     unpaid_store)))) = [''2024-02-01T10:00:00.000Z''] \<and>
   map inv_updated_at (invoices (fst (snd (webhook later_call ''{}'' (Some ''t=1,v1=good'')
     (fst (snd (webhook stripe_ok ''{}'' (Some ''t=1,v1=good'') unpaid_store))))))) =
     [''2024-02-01T10:05:00.000Z'']"
proof -
  let ?s1 = "fst (snd (webhook stripe_ok ''{}'' (Some ''t=1,v1=good'') unpaid_store))"
  let ?s2 = "fst (snd (webhook later_call ''{}'' (Some ''t=1,v1=good'') ?s1))"
  have s1: "?s1 = mark_booking_paid stripe_ok ''11111111-1111-4111-8111-111111111111''
        (mark_invoice_paid stripe_ok ''cs_test_1'' unpaid_store)"
    by (subst first_confirmation) simp
  have s2: "?s2 = mark_booking_paid later_call ''11111111-1111-4111-8111-111111111111''
        (mark_invoice_paid later_call ''cs_test_1'' ?s1)"
    by (subst replay_confirmation) simp
  have first: "map inv_updated_at (invoices ?s1) = [''2024-02-01T10:00:00.000Z'']"
    unfolding s1 confirmed_rows by (simp add: stripe_ok_fields)
  have second: "map inv_updated_at (invoices ?s2) = [''2024-02-01T10:05:00.000Z'']"
    unfolding s2 unfolding s1 replayed_rows by (simp add: later_call_fields)
  have "map inv_updated_at (invoices ?s2) \<noteq> map inv_updated_at (invoices ?s1)"
    unfolding first second by simp
  then have "?s2 \<noteq> ?s1" by metis
  then show ?thesis using first second by blast
qed

text \<open>
  Claim C4. When the signature header is missing or empty, or when the construction of
  the event from the body, the signature and the webhook secret throws, the answer is
  400, the store is unchanged, and nothing is posted.
\<close>

theorem bad_signature_rejected:
  assumes "\<not> truthy signature \<or> constructWebhookEvent env body (text_of signature) = None"
  shows "webhook_status (fst (webhook env body signature s)) = 400 \<and>
         fst (snd (webhook env body signature s)) = s \<and>
         filter is_post (snd (snd (webhook env body signature s))) = []"
  using assms by (auto simp add: webhook_def)

text \<open>
  A request without the header and a request with a forged signature.
\<close>

theorem bad_signature_rejected_witness:
  "webhook_status (fst (webhook stripe_ok ''{}'' None unpaid_store)) = 400 \<and>
   fst (snd (webhook stripe_ok ''{}'' None unpaid_store)) = unpaid_store \<and>
   constructWebhookEvent stripe_ok ''{}'' ''t=1,v1=forged'' = None \<and>
   webhook_status (fst (webhook stripe_ok ''{}'' (Some ''t=1,v1=forged'') unpaid_store)) = 400 \<and>
   fst (snd (webhook stripe_ok ''{}'' (Some ''t=1,v1=forged'') unpaid_store)) = unpaid_store"
proof -
  have forged: "constructWebhookEvent stripe_ok ''{}'' ''t=1,v1=forged'' = None"
    by (simp add: constructWebhookEvent_def stripe_ok_def)
  show ?thesis
    using bad_signature_rejected [of None stripe_ok "''{}''" unpaid_store]
      bad_signature_rejected [of "Some ''t=1,v1=forged''" stripe_ok "''{}''" unpaid_store] forged
    by simp
qed

text \<open>
  Claim C5, as the handler implements it. A callback whose signature verifies is
  answered with 200 and \<open>received: true\<close> for every event type but the completed
  session, and the store is unchanged; for a type that is not recognised nothing
  happens at all. For a completed session the answer is 200 when the metadata names the
  booking and both updates succeed, 400 when the metadata names no booking, and 500 when
  the invoice update or the booking update fails.
\<close>

theorem verified_webhook_answer:
  assumes "truthy signature"
    and "constructWebhookEvent env body (text_of signature) = Some event"
  shows "(ev_type event \<noteq> ''checkout.session.completed'' \<longrightarrow>
            fst (webhook env body signature s) = Received \<and>
            webhook_status (fst (webhook env body signature s)) = 200 \<and>
            fst (snd (webhook env body signature s)) = s) \<and>
         (ev_type event \<noteq> ''checkout.session.completed'' \<and>
          ev_type event \<noteq> ''checkout.session.expired'' \<longrightarrow>
            webhook env body signature s = (Received, s, [])) \<and>
         (ev_type event = ''checkout.session.completed'' \<longrightarrow>
            (truthy (cs_bookingId (ev_object event)) \<and> \<not> invoice_update_fails env \<and>
             \<not> booking_update_fails env \<longrightarrow>
               fst (webhook env body signature s) = Received \<and>
               webhook_status (fst (webhook env body signature s)) = 200) \<and>
            (\<not> truthy (cs_bookingId (ev_object event)) \<longrightarrow>
               fst (webhook env body signature s) = Missing_Booking_Id \<and>
               webhook_status (fst (webhook env body signature s)) = 400 \<and>
               fst (snd (webhook env body signature s)) = s) \<and>
            (truthy (cs_bookingId (ev_object event)) \<and> invoice_update_fails env \<longrightarrow>
               fst (webhook env body signature s) = Invoice_Update_Failed \<and>
               webhook_status (fst (webhook env body signature s)) = 500 \<and>
               fst (snd (webhook env body signature s)) = s) \<and>
            (truthy (cs_bookingId (ev_object event)) \<and> \<not> invoice_update_fails env \<and>
             booking_update_fails env \<longrightarrow>
               fst (webhook env body signature s) = Booking_Update_Failed \<and>
               webhook_status (fst (webhook env body signature s)) = 500))"
  using assms
  by (simp add: webhook_def session_completed_def session_expired_def Let_def)

text \<open>
  A verified event of a type the handler does not know, and a verified completed
  session.
\<close>

theorem verified_webhook_answer_witness:
  "constructWebhookEvent refund_call ''{}'' ''t=1,v1=good'' =
     Some (paid_event\<lparr>ev_type := ''charge.refunded''\<rparr>) \<and>
   webhook refund_call ''{}'' (Some ''t=1,v1=good'') unpaid_store = (Received, unpaid_store, []) \<and>
   webhook_status (fst (webhook stripe_ok ''{}'' (Some ''t=1,v1=good'') unpaid_store)) = 200"
proof -
  have v: "constructWebhookEvent refund_call ''{}'' (text_of (Some ''t=1,v1=good'')) =
     Some (paid_event\<lparr>ev_type := ''charge.refunded''\<rparr>)"
    by (simp add: constructWebhookEvent_def refund_call_def stripe_ok_def)
  have w: "constructWebhookEvent stripe_ok ''{}'' (text_of (Some ''t=1,v1=good'')) = Some paid_event"
    by (simp add: good_signature)
  show ?thesis
    using verified_webhook_answer [OF _ v, of unpaid_store]
      verified_webhook_answer [OF _ w, of unpaid_store] v
    by (simp add: paid_event_fields stripe_ok_fields)
qed

text \<open>
  Claim C5 as stated does not hold for every verified callback: a completed session
  whose metadata names no booking is answered with 400.
\<close>

theorem verified_webhook_counterexample:
  "constructWebhookEvent untagged_call ''{}'' ''t=1,v1=good'' = Some untagged_event \<and>
   webhook_status (fst (webhook untagged_call ''{}'' (Some ''t=1,v1=good'') unpaid_store)) = 400"
  by (simp add: webhook_def session_completed_def constructWebhookEvent_def untagged_call_def
      untagged_event_def stripe_ok_def paid_event_def march_session_def)

section \<open>Properties of the booking intake\<close>

text \<open>
  A pair whose end is not after its start, both dates non-empty and parsed, aborts the
  whole batch: no date range of the request is stored, whatever else the request holds,
  and the request is not answered with 201. Once the contractor and the booking request
  are stored, the answer is 500: the thrown error is not a schema error, so the handler's
  catch reports an internal server error.
\<close>

lemma bookingDates_invalid:
  "p \<in> set pairs \<Longrightarrow> date_ge (D (startDate p)) (D (endDate p)) \<Longrightarrow>
   \<exists>msg. bookingDates D rid pairs = Inl msg"
  by (induction pairs) (auto split: sum.splits)

lemma create_dates_invalid:
  assumes "bookings_field body = Some pairs" "p \<in> set pairs"
    and "startDate p \<noteq> []" "endDate p \<noteq> []"
    and "date_ge (D (startDate p)) (D (endDate p))"
  shows "\<exists>msg. create_dates D env body c r s =
           (Internal_Server_Error (''Internal server error: '' @ msg), s,
            [Log_Error ''=== Error processing booking request ===''])"
proof -
  have "p \<in> set (filter (\<lambda>b. startDate b \<noteq> [] \<and> endDate b \<noteq> []) pairs)"
    using assms by simp
  then obtain msg where "bookingDates D (brq_id r)
      (filter (\<lambda>b. startDate b \<noteq> [] \<and> endDate b \<noteq> []) pairs) = Inl msg"
    using bookingDates_invalid assms(5) by blast
  then show ?thesis using assms(1) by (simp add: create_dates_def)
qed

lemma invalid_pair_never_persisted:
  assumes "bookings_field body = Some pairs" "p \<in> set pairs"
    and "startDate p \<noteq> []" "endDate p \<noteq> []"
    and "D (startDate p) = Some a" "D (endDate p) = Some b" "b \<le> a"
  shows "booking_dates (fst (snd (booking_requests_post D env body s))) = booking_dates s \<and>
         intake_status (fst (booking_requests_post D env body s)) \<in> {400, 500} \<and>
         (bookingRequestSchema env body \<and>
          signUp env (text_of (email body)) (text_of (password body)) = Auth_User uid \<and>
          \<not> contractor_insert_fails env \<and> \<not> request_insert_fails env \<longrightarrow>
            intake_status (fst (booking_requests_post D env body s)) = 500)"
proof -
  have ge: "date_ge (D (startDate p)) (D (endDate p))" using assms(5-7) by simp
  have kept: "booking_dates (fst (snd (create_dates D env body c r t))) = booking_dates t"
    and failed: "intake_status (fst (create_dates D env body c r t)) = 500" for c r t
    using create_dates_invalid [OF assms(1-4) ge, of env c r t] by auto
  show ?thesis
    unfolding booking_requests_post_def Let_def
    by (simp add: kept failed split: auth_result.split)
qed

lemma forward_pair_answer:
  "intake_status (fst (booking_requests_post iso_date intake_ok march_intake empty_db)) = 201 \<and>
   map bd_start_date (booking_dates (fst (snd (booking_requests_post iso_date intake_ok march_intake
     empty_db)))) = [''2024-03-01'']"
  by code_simp

text \<open>
  Claim C6, at a request with one well-formed pair and one pair that ends before it
  starts, all collaborators answering: the answer is 500 where the claim says 400. No
  date range is stored, as the claim says; the contractor and the booking request are.
\<close>

theorem backwards_pair_answer:
  "intake_status (fst (booking_requests_post iso_date intake_ok backwards_intake empty_db)) = 500 \<and>
   booking_dates (fst (snd (booking_requests_post iso_date intake_ok backwards_intake empty_db))) = [] \<and>
   map ct_id (contractor (fst (snd (booking_requests_post iso_date intake_ok backwards_intake
     empty_db)))) = [''u1''] \<and>
   map brq_id (booking_requests (fst (snd (booking_requests_post iso_date intake_ok backwards_intake
     empty_db)))) = [''r1'']"
  by code_simp

end
